theory Spec2Isabelle
  imports Complex_Main
begin

section \<open>SentinelBot: real-time threat classification\<close>

text \<open>
  A shallow embedding of \<^verbatim>\<open>src/core_bots/sentinelbot.py\<close>: the remote
  threat-intelligence client \<^verbatim>\<open>SpiderThreatAPI\<close>, the pattern detector
  \<^verbatim>\<open>LocalThreatDetector\<close> and the classifier \<^verbatim>\<open>SentinelBot\<close>.

  Conventions of the model.
  \<^item> A Python \<^verbatim>\<open>str\<close> is a \<open>string\<close>; a \<open>char\<close> stands for a code point
    below 256, which covers every character the source's patterns and tables mention.
  \<^item> A Python \<^verbatim>\<open>float\<close> is a \<open>real\<close>: rounding is not modelled.
  \<^item> Object fields that the methods mutate are passed in and returned explicitly.
  \<^item> Every reading of \<^verbatim>\<open>time.time()\<close> and every answer of the network and of
    the database is an input of the model, collected in one record per classification.
\<close>

subsection \<open>Strings\<close>

text \<open>\<^verbatim>\<open>str.lower()\<close> on code points below 256: the ASCII capitals and the Latin-1
  capitals (0xC0 to 0xDE without the multiplication sign 0xD7) move up by 32.\<close>

definition lower_char :: "char \<Rightarrow> char" where
  "lower_char c =
     (let n = of_char c :: nat in
      if (65 \<le> n \<and> n \<le> 90) \<or> (192 \<le> n \<and> n \<le> 222 \<and> n \<noteq> 215)
      then char_of (n + 32) else c)"

definition lower :: "string \<Rightarrow> string" where
  "lower s = map lower_char s"

text \<open>\<^verbatim>\<open>sub in s\<close> on strings: \<open>sub\<close> occurs as a contiguous piece of \<open>s\<close>.\<close>

fun starts_with :: "string \<Rightarrow> string \<Rightarrow> bool" where
  "starts_with s [] = True"
| "starts_with [] (p # ps) = False"
| "starts_with (c # cs) (p # ps) = (c = p \<and> starts_with cs ps)"

fun str_contains :: "string \<Rightarrow> string \<Rightarrow> bool" where
  "str_contains [] sub = (sub = [])"
| "str_contains (c # cs) sub = (starts_with (c # cs) sub \<or> str_contains cs sub)"

text \<open>\<^verbatim>\<open>" ".join(parts)\<close>.\<close>

fun join_space :: "string list \<Rightarrow> string" where
  "join_space [] = []"
| "join_space [p] = p"
| "join_space (p # q # ps) = p @ '' '' @ join_space (q # ps)"

text \<open>Characters that a string literal cannot hold.\<close>

definition newline :: char where
  "newline = CHR 0x0A"

definition carriage_return :: char where
  "carriage_return = CHR 0x0D"

definition apostrophe :: char where
  "apostrophe = CHR 0x27"

definition backslash :: char where
  "backslash = CHR 0x5C"

text \<open>\<^verbatim>\<open>d.get(key, default)\<close> on a key that may be absent.\<close>

definition get_default :: "'a \<Rightarrow> 'a option \<Rightarrow> 'a" where
  "get_default d v = (case v of None \<Rightarrow> d | Some x \<Rightarrow> x)"

subsection \<open>Regular expressions of the \<^verbatim>\<open>re\<close> module\<close>

text \<open>
  The detector calls \<^verbatim>\<open>re.search(pattern, text, re.IGNORECASE)\<close> and looks only at
  whether a match exists. The constructors below are the pattern syntax the source uses:
  the empty pattern, a literal character, a negated one-character set \<^verbatim>\<open>[^c]\<close>,
  the dot, the classes
  \<^verbatim>\<open>\w\<close> and \<^verbatim>\<open>\s\<close>, sequence, alternative, and the repetitions \<^verbatim>\<open>*\<close>
  and \<^verbatim>\<open>+\<close>. A lazy repetition \<^verbatim>\<open>*?\<close> matches the same texts as \<^verbatim>\<open>*\<close>,
  and groups only delimit, so neither needs a constructor.
\<close>

datatype rx =
    Eps
  | Chr char
  | NotChr char
  | Dot
  | Word
  | Space
  | Seq rx rx
  | Alt rx rx
  | Star rx
  | Plus rx

text \<open>The classes on code points below 256, as the Unicode tables of Python give them:
  \<^verbatim>\<open>\w\<close> is the underscore and every alphanumeric character, \<^verbatim>\<open>\s\<close> is every
  white-space character.\<close>

definition is_word_char :: "char \<Rightarrow> bool" where
  "is_word_char c =
     (let n = of_char c :: nat in
      (48 \<le> n \<and> n \<le> 57) \<or> (65 \<le> n \<and> n \<le> 90) \<or> n = 95 \<or> (97 \<le> n \<and> n \<le> 122)
      \<or> n = 170 \<or> n = 178 \<or> n = 179 \<or> n = 181 \<or> n = 185 \<or> n = 186
      \<or> (188 \<le> n \<and> n \<le> 190) \<or> (192 \<le> n \<and> n \<le> 214) \<or> (216 \<le> n \<and> n \<le> 246)
      \<or> 248 \<le> n)"

definition is_space_char :: "char \<Rightarrow> bool" where
  "is_space_char c =
     (let n = of_char c :: nat in
      (9 \<le> n \<and> n \<le> 13) \<or> (28 \<le> n \<and> n \<le> 32) \<or> n = 133 \<or> n = 160)"

text \<open>\<open>rx_one ok s\<close>: the remainder of \<open>s\<close> after one character that passes
  \<open>ok\<close>.\<close>

definition rx_one :: "(char \<Rightarrow> bool) \<Rightarrow> string \<Rightarrow> string list" where
  "rx_one ok s = (case s of [] \<Rightarrow> [] | c # cs \<Rightarrow> if ok c then [cs] else [])"

text \<open>\<open>rx_iter step n s\<close>: the remainders of \<open>s\<close> after zero or more rounds of \<open>step\<close>.
  A round that consumes nothing adds no new remainder, so only shorter remainders are
  followed, and \<open>n = length s\<close> rounds are enough.\<close>

primrec rx_iter :: "(string \<Rightarrow> string list) \<Rightarrow> nat \<Rightarrow> string \<Rightarrow> string list" where
  "rx_iter step 0 s = [s]"
| "rx_iter step (Suc n) s =
     s # concat (map (rx_iter step n) (filter (\<lambda>t. length t < length s) (step s)))"

text \<open>\<open>rx_match r s\<close>: every remainder of \<open>s\<close> left after \<open>r\<close> matches a prefix
  of \<open>s\<close>. Letters compare under \<^verbatim>\<open>re.IGNORECASE\<close>; the dot does not match a
  newline.\<close>

primrec rx_match :: "rx \<Rightarrow> string \<Rightarrow> string list" where
  "rx_match Eps s = [s]"
| "rx_match (Chr p) s = rx_one (\<lambda>c. lower_char c = lower_char p) s"
| "rx_match (NotChr p) s = rx_one (\<lambda>c. lower_char c \<noteq> lower_char p) s"
| "rx_match Dot s = rx_one (\<lambda>c. c \<noteq> newline) s"
| "rx_match Word s = rx_one is_word_char s"
| "rx_match Space s = rx_one is_space_char s"
| "rx_match (Seq r1 r2) s = concat (map (rx_match r2) (rx_match r1 s))"
| "rx_match (Alt r1 r2) s = rx_match r1 s @ rx_match r2 s"
| "rx_match (Star r) s = rx_iter (rx_match r) (length s) s"
| "rx_match (Plus r) s =
     concat (map (\<lambda>t. rx_iter (rx_match r) (length t) t) (rx_match r s))"

text \<open>\<^verbatim>\<open>re.search\<close>: a match may start at any position of the text.\<close>

fun re_search :: "rx \<Rightarrow> string \<Rightarrow> bool" where
  "re_search r [] = (rx_match r [] \<noteq> [])"
| "re_search r (c # cs) = (rx_match r (c # cs) \<noteq> [] \<or> re_search r cs)"

text \<open>Building patterns: a sequence of patterns, and a literal text.\<close>

fun seqs :: "rx list \<Rightarrow> rx" where
  "seqs [] = Eps"
| "seqs [r] = r"
| "seqs (r # rs) = Seq r (seqs rs)"

definition lit :: "string \<Rightarrow> rx" where
  "lit s = seqs (map Chr s)"


subsection \<open>Data model\<close>

text \<open>The request dictionary. Every key may be absent: the source reads each one with
  \<^verbatim>\<open>request_data.get(key, default)\<close>. Headers and query parameters keep their
  insertion order, in which \<^verbatim>\<open>items()\<close> and \<^verbatim>\<open>values()\<close> visit them.\<close>

record request_data =
  req_ip :: "string option"
  req_user_agent :: "string option"
  req_path :: "string option"
  req_method :: "string option"
  req_headers :: "(string \<times> string) list option"
  req_query_params :: "(string \<times> string) list option"

text \<open>The dictionary one evaluator returns: \<^verbatim>\<open>'type'\<close>, \<^verbatim>\<open>'severity'\<close>,
  \<^verbatim>\<open>'location'\<close> and the evidence keys, which differ from one evaluator to the
  next.\<close>

datatype evidence =
    MatchedPattern rx
  | MatchedUserAgent string
  | RequestCount int int
  | OffendingHeader string

record threat =
  ttype :: string
  severity :: int
  evidence :: evidence
  location :: string

datatype threat_data =
    Threats "threat list" string
  | Status string

text \<open>The dataclass \<^verbatim>\<open>ThreatDetection\<close>.\<close>

record ThreatDetection =
  threat_type :: string
  severity_level :: int
  confidence :: real
  source_ip :: string
  user_agent :: string
  request_path :: string
  threat_data :: threat_data
  spider_score :: real
  detection_time :: real
  recommended_action :: string

text \<open>The decoded answer of the remote service. The classifier reads only
  \<^verbatim>\<open>threat_score\<close>, with \<^verbatim>\<open>.get\<close>, so that key may be absent.\<close>

record spider_result =
  threat_score :: "real option"
  threat_types :: "string list"
  reputation :: string

text \<open>The exceptions the source tells apart: \<^verbatim>\<open>asyncio.TimeoutError\<close> and any other
  \<^verbatim>\<open>Exception\<close>, with its message.\<close>

datatype exn =
    AsyncioTimeoutError
  | OtherException string

text \<open>The answer to \<^verbatim>\<open>session.post\<close>: a status, and a body that
  \<^verbatim>\<open>response.json()\<close> decodes or rejects.\<close>

record http_response =
  status :: int
  json :: "exn + spider_result"

text \<open>
  What the outside world contributes to one classification.
  \<^item> \<open>t_start\<close>, \<open>t_local_start\<close>, \<open>t_rate\<close>, \<open>t_local_end\<close>, \<open>t_cache_check\<close>,
    \<open>t_cache_store\<close>, \<open>t_end\<close>: the readings of \<^verbatim>\<open>time.time()\<close>, in seconds, in
    the order the source takes them: at the entry of \<^verbatim>\<open>SentinelBot.analyze_request\<close>,
    at the entry of \<^verbatim>\<open>LocalThreatDetector.analyze_request\<close>, in
    \<^verbatim>\<open>_check_rate_limiting\<close>, at the end of the local analysis, at the cache
    lookup, at the cache store, and the last reading of the classification.
  \<^item> \<open>post_result\<close>: what \<^verbatim>\<open>session.post\<close> does, an exception or a response;
    \<open>post_latency\<close>: the seconds it takes.
  \<^item> \<open>md5_hexdigest\<close>: the digest function of \<^verbatim>\<open>hashlib\<close>.
  \<^item> \<open>db_available\<close>: whether the insert of \<^verbatim>\<open>_store_threat_detection\<close> succeeds.
\<close>

record env =
  t_start :: real
  t_local_start :: real
  t_rate :: real
  t_local_end :: real
  t_cache_check :: real
  t_cache_store :: real
  t_end :: real
  post_result :: "exn + http_response"
  post_latency :: real
  md5_hexdigest :: "string \<Rightarrow> string"
  db_available :: bool

subsection \<open>\<^verbatim>\<open>LocalThreatDetector\<close>\<close>

text \<open>The pattern tables of \<^verbatim>\<open>__init__\<close>, each list in the source's order. In the
  source's notation the five SQL-injection patterns are
  \<^verbatim>\<open>(\%27)|(\')|(\-\-)|(\%23)|(#)\<close>,
  \<^verbatim>\<open>((\%3D)|(=))[^\n]*((\%27)|(\')|(\-\-)|(\%3B)|(;))\<close>,
  \<^verbatim>\<open>\w*((\%27)|(\'))((\%6F)|o|(\%4F))((\%72)|r|(\%52))\<close>,
  \<^verbatim>\<open>((\%27)|(\'))union\<close> and
  \<^verbatim>\<open>exec(\s|\+)+(s|x)p\w+\<close>.\<close>

definition quote_or_27 :: rx where
  "quote_or_27 = Alt (lit ''%27'') (Chr apostrophe)"

definition sql_injection_patterns :: "rx list" where
  "sql_injection_patterns =
     [Alt (lit ''%27'') (Alt (Chr apostrophe) (Alt (lit ''--'') (Alt (lit ''%23'') (Chr CHR ''#'')))),
      seqs [Alt (lit ''%3D'') (Chr CHR ''=''), Star (NotChr newline),
            Alt (lit ''%27'') (Alt (Chr apostrophe) (Alt (lit ''--'')
              (Alt (lit ''%3B'') (Chr CHR '';''))))],
      seqs [Star Word, quote_or_27,
            Alt (lit ''%6F'') (Alt (Chr CHR ''o'') (lit ''%4F'')),
            Alt (lit ''%72'') (Alt (Chr CHR ''r'') (lit ''%52''))],
      seqs [quote_or_27, lit ''union''],
      seqs [lit ''exec'', Plus (Alt Space (Chr CHR ''+'')),
            Alt (Chr CHR ''s'') (Chr CHR ''x''), Chr CHR ''p'', Plus Word]]"

text \<open>The XSS patterns:
  \<^verbatim>\<open><script[^>]*>.*?</script>\<close>, \<^verbatim>\<open>javascript:\<close>, \<^verbatim>\<open>on\w+\s*=\<close>,
  \<^verbatim>\<open><iframe[^>]*>.*?</iframe>\<close> and \<^verbatim>\<open><object[^>]*>.*?</object>\<close>.\<close>

definition tag_pair :: "string \<Rightarrow> rx" where
  "tag_pair name =
     seqs [lit (''<'' @ name), Star (NotChr CHR ''>''), Chr CHR ''>'', Star Dot,
           lit (''</'' @ name @ ''>'')]"

definition xss_patterns :: "rx list" where
  "xss_patterns =
     [tag_pair ''script'',
      lit ''javascript:'',
      seqs [lit ''on'', Plus Word, Star Space, Chr CHR ''=''],
      tag_pair ''iframe'',
      tag_pair ''object'']"

text \<open>The path-traversal patterns:
  \<^verbatim>\<open>\.\.\/\<close>, \<^verbatim>\<open>\.\.\\\<close>, \<^verbatim>\<open>\%2e\%2e\%2f\<close>, \<^verbatim>\<open>\%2e\%2e\/\<close> and
  \<^verbatim>\<open>\.\.%2f\<close>.\<close>

definition path_traversal_patterns :: "rx list" where
  "path_traversal_patterns =
     [lit ''../'',
      seqs [lit ''..'', Chr backslash],
      lit ''%2e%2e%2f'',
      lit ''%2e%2e/'',
      lit ''..%2f'']"

definition suspicious_user_agents :: "string list" where
  "suspicious_user_agents =
     [''sqlmap'', ''nikto'', ''nmap'', ''masscan'', ''zap'', ''burp'',
      ''acunetix'', ''nessus'', ''openvas'', ''w3af'', ''skipfish'']"

definition rate_limit_window :: real where
  "rate_limit_window = 60"

definition rate_limit_threshold :: int where
  "rate_limit_threshold = 100"

text \<open>\<^verbatim>\<open>path + " " + " ".join(str(v) for v in params.values())\<close>.\<close>

definition combined_input :: "string \<Rightarrow> (string \<times> string) list \<Rightarrow> string" where
  "combined_input path params = path @ '' '' @ join_space (map snd params)"

text \<open>\<^verbatim>\<open>_check_sql_injection\<close>, \<^verbatim>\<open>_check_xss\<close>, \<^verbatim>\<open>_check_path_traversal\<close>: the
  first pattern of the table that is found decides.\<close>

definition check_sql_injection :: "string \<Rightarrow> (string \<times> string) list \<Rightarrow> threat option" where
  "check_sql_injection path params =
     (case List.find (\<lambda>pattern. re_search pattern (combined_input path params))
             sql_injection_patterns of
        Some pattern \<Rightarrow>
          Some \<lparr>ttype = ''sql_injection'', severity = 9, evidence = MatchedPattern pattern,
                location = ''path_or_params''\<rparr>
      | None \<Rightarrow> None)"

definition check_xss :: "string \<Rightarrow> (string \<times> string) list \<Rightarrow> threat option" where
  "check_xss path params =
     (case List.find (\<lambda>pattern. re_search pattern (combined_input path params))
             xss_patterns of
        Some pattern \<Rightarrow>
          Some \<lparr>ttype = ''xss'', severity = 7, evidence = MatchedPattern pattern,
                location = ''path_or_params''\<rparr>
      | None \<Rightarrow> None)"

definition check_path_traversal :: "string \<Rightarrow> threat option" where
  "check_path_traversal path =
     (case List.find (\<lambda>pattern. re_search pattern path) path_traversal_patterns of
        Some pattern \<Rightarrow>
          Some \<lparr>ttype = ''path_traversal'', severity = 6, evidence = MatchedPattern pattern,
                location = ''path''\<rparr>
      | None \<Rightarrow> None)"

text \<open>\<^verbatim>\<open>_check_user_agent\<close>: the first scanner name that occurs in the lower-cased
  user agent.\<close>

definition check_user_agent :: "string \<Rightarrow> threat option" where
  "check_user_agent ua =
     (let ua_lower = lower ua in
      case List.find (\<lambda>suspicious_ua. str_contains ua_lower suspicious_ua)
             suspicious_user_agents of
        Some suspicious_ua \<Rightarrow>
          Some \<lparr>ttype = ''suspicious_user_agent'', severity = 5,
                evidence = MatchedUserAgent suspicious_ua, location = ''headers''\<rparr>
      | None \<Rightarrow> None)"

text \<open>\<^verbatim>\<open>_check_rate_limiting\<close>. The field \<^verbatim>\<open>request_counts\<close> maps an address to its
  list of \<^verbatim>\<open>(timestamp, count)\<close> pairs. The call drops, for every address, the pairs
  whose timestamp is not after the cutoff, appends \<^verbatim>\<open>(current_time, 1)\<close> to the
  caller's list, and compares the sum of its counts with the threshold.\<close>

type_synonym request_counts = "string \<rightharpoonup> (real \<times> int) list"

definition check_rate_limiting ::
  "real \<Rightarrow> string \<Rightarrow> request_counts \<Rightarrow> threat option \<times> request_counts" where
  "check_rate_limiting current_time ip rc =
     (let cutoff_time = current_time - rate_limit_window;
          cleaned = (\<lambda>ip_addr. map_option (filter (\<lambda>(timestamp, count). timestamp > cutoff_time))
                                  (rc ip_addr));
          requests = (case cleaned ip of None \<Rightarrow> [] | Some rs \<Rightarrow> rs) @ [(current_time, 1)];
          rc' = cleaned(ip \<mapsto> requests);
          total_requests = sum_list (map snd requests)
      in (if total_requests > rate_limit_threshold
          then Some \<lparr>ttype = ''rate_limit_violation'', severity = 6,
                     evidence = RequestCount total_requests rate_limit_threshold,
                     location = ''rate_limiting''\<rparr>
          else None,
          rc'))"

text \<open>\<^verbatim>\<open>_check_suspicious_headers\<close>: the first header, in the order of the mapping,
  whose lower-cased name is one of the three listed and whose value holds a newline or a
  carriage return.\<close>

definition suspicious_headers :: "string list" where
  "suspicious_headers = [''x-forwarded-for'', ''x-real-ip'', ''x-originating-ip'']"

definition check_suspicious_headers :: "(string \<times> string) list \<Rightarrow> threat option" where
  "check_suspicious_headers headers =
     (case List.find (\<lambda>(header_name, header_value).
                        lower header_name \<in> set suspicious_headers
                        \<and> (newline \<in> set header_value \<or> carriage_return \<in> set header_value))
             headers of
        Some (header_name, header_value) \<Rightarrow>
          Some \<lparr>ttype = ''header_injection'', severity = 7,
                evidence = OffendingHeader header_name, location = ''headers''\<rparr>
      | None \<Rightarrow> None)"

text \<open>One step of \<^verbatim>\<open>analyze_request\<close>: a signal that was found is appended to
  \<^verbatim>\<open>threats\<close> and raises \<^verbatim>\<open>max_severity\<close>.\<close>

definition add_threat :: "threat option \<Rightarrow> threat list \<times> int \<Rightarrow> threat list \<times> int" where
  "add_threat found acc =
     (case found of
        None \<Rightarrow> acc
      | Some t \<Rightarrow> (fst acc @ [t], max (snd acc) (severity t)))"

text \<open>The action that \<^verbatim>\<open>analyze_request\<close> recommends for a severity.\<close>

definition action_for :: "int \<Rightarrow> string" where
  "action_for max_severity =
     (if max_severity \<ge> 8 then ''block_immediately''
      else if max_severity \<ge> 5 then ''rate_limit''
      else if max_severity \<ge> 3 then ''monitor_closely''
      else ''allow'')"

text \<open>\<^verbatim>\<open>LocalThreatDetector.analyze_request\<close>: the six evaluators in the source's order,
  then the summary. The second component is the updated \<^verbatim>\<open>request_counts\<close>.\<close>

definition LocalThreatDetector_analyze_request ::
  "env \<Rightarrow> request_data \<Rightarrow> request_counts \<Rightarrow> ThreatDetection \<times> request_counts" where
  "LocalThreatDetector_analyze_request e rd rc =
     (let start_time = t_local_start e;
          ip = get_default [] (req_ip rd);
          ua = get_default [] (req_user_agent rd);
          path = get_default [] (req_path rd);
          method = get_default ''GET'' (req_method rd);
          headers = get_default [] (req_headers rd);
          params = get_default [] (req_query_params rd);
          acc = ([], 0);
          acc = add_threat (check_sql_injection path params) acc;
          acc = add_threat (check_xss path params) acc;
          acc = add_threat (check_path_traversal path) acc;
          acc = add_threat (check_user_agent ua) acc;
          (rate_threat, rc') = check_rate_limiting (t_rate e) ip rc;
          acc = add_threat rate_threat acc;
          acc = add_threat (check_suspicious_headers headers) acc;
          threats = fst acc;
          max_severity = snd acc;
          detection_time = (t_local_end e - start_time) * 1000;
          primary_threat = (case threats of [] \<Rightarrow> ''none'' | t # _ \<Rightarrow> ttype t);
          confidence = min 0.95 (real (length threats) * 0.2 + (real_of_int max_severity / 10) * 0.5)
      in (\<lparr>threat_type = primary_threat, severity_level = max_severity,
           confidence = confidence, source_ip = ip, user_agent = ua, request_path = path,
           threat_data = Threats threats method, spider_score = 0.0,
           detection_time = detection_time, recommended_action = action_for max_severity\<rparr>,
          rc'))"

subsection \<open>\<^verbatim>\<open>SpiderThreatAPI\<close>\<close>

text \<open>The client's mutable field is \<^verbatim>\<open>cache\<close>, from a digest to a pair of a result and
  the time it was stored. \<open>posts\<close> is not a field of the source: it counts the calls of
  \<^verbatim>\<open>session.post\<close>, so that the number of network calls can be stated.\<close>

record spider_api =
  cache :: "string \<rightharpoonup> (spider_result \<times> real)"
  posts :: nat

definition cache_ttl :: real where
  "cache_ttl = 300"

text \<open>The dictionary returned on every failure.\<close>

definition neutral_score :: spider_result where
  "neutral_score = \<lparr>threat_score = Some 0.0, threat_types = [], reputation = ''unknown''\<rparr>"

definition cache_key :: "env \<Rightarrow> request_data \<Rightarrow> string" where
  "cache_key e rd =
     md5_hexdigest e (get_default [] (req_ip rd) @ get_default [] (req_user_agent rd)
                      @ get_default [] (req_path rd))"

text \<open>The cache check: an entry is used while its age is below the TTL.\<close>

definition cache_lookup :: "env \<Rightarrow> request_data \<Rightarrow> spider_api \<Rightarrow> spider_result option" where
  "cache_lookup e rd api =
     (case cache api (cache_key e rd) of
        None \<Rightarrow> None
      | Some (cached_result, timestamp) \<Rightarrow>
          if t_cache_check e - timestamp < cache_ttl then Some cached_result else None)"

text \<open>The body of the \<^verbatim>\<open>try\<close> block: the post, then the status check, the decoding
  and the cache store. \<open>Inl\<close> is an exception leaving the block.\<close>

definition analyze_threat_try ::
  "env \<Rightarrow> request_data \<Rightarrow> spider_api \<Rightarrow> exn + (spider_result \<times> spider_api)" where
  "analyze_threat_try e rd api =
     (case post_result e of
        Inl ex \<Rightarrow> Inl ex
      | Inr response \<Rightarrow>
          if status response = 200 then
            (case json response of
               Inl ex \<Rightarrow> Inl ex
             | Inr result \<Rightarrow>
                 Inr (result,
                      api\<lparr>cache := (cache api)(cache_key e rd \<mapsto> (result, t_cache_store e))\<rparr>))
          else Inr (neutral_score, api))"

text \<open>\<^verbatim>\<open>analyze_threat\<close>, run to completion: the cache check, then the \<^verbatim>\<open>try\<close> block
  with its two handlers.\<close>

definition analyze_threat :: "env \<Rightarrow> request_data \<Rightarrow> spider_api \<Rightarrow> spider_result \<times> spider_api" where
  "analyze_threat e rd api =
     (case cache_lookup e rd api of
        Some cached_result \<Rightarrow> (cached_result, api)
      | None \<Rightarrow>
          (let api1 = api\<lparr>posts := posts api + 1\<rparr> in
           case analyze_threat_try e rd api1 of
             Inr done \<Rightarrow> done
           | Inl AsyncioTimeoutError \<Rightarrow> (neutral_score, api1)
           | Inl (OtherException msg) \<Rightarrow> (neutral_score, api1)))"

text \<open>The coroutine suspends only in the post: not at all on a cache hit, for
  \<open>post_latency\<close> seconds otherwise. Cancelled there, it has issued the post and stored
  nothing.\<close>

definition analyze_threat_suspended :: "env \<Rightarrow> request_data \<Rightarrow> spider_api \<Rightarrow> real" where
  "analyze_threat_suspended e rd api =
     (case cache_lookup e rd api of Some cached_result \<Rightarrow> 0 | None \<Rightarrow> post_latency e)"

definition analyze_threat_cancelled :: "spider_api \<Rightarrow> spider_api" where
  "analyze_threat_cancelled api = api\<lparr>posts := posts api + 1\<rparr>"

subsection \<open>\<^verbatim>\<open>SentinelBot\<close>\<close>

text \<open>The fields the classifier reads and writes. \<open>request_counts\<close> is the field of its
  \<^verbatim>\<open>local_detector\<close>. Two components are not fields of the source: \<open>threats_table\<close>
  holds the rows that \<^verbatim>\<open>_store_threat_detection\<close> inserted, and \<open>wait_for_log\<close>
  the timeout of every call of \<^verbatim>\<open>asyncio.wait_for\<close>, in seconds.\<close>

record sentinel =
  spider_api :: spider_api
  request_counts :: request_counts
  blocked_ips :: "string set"
  whitelist_ips :: "string set"
  detection_count :: nat
  avg_detection_time :: real
  threats_table :: "ThreatDetection list"
  wait_for_log :: "real list"

definition target_response_time :: real where
  "target_response_time = 50.0"

text \<open>\<^verbatim>\<open>_create_safe_detection\<close> and \<^verbatim>\<open>_create_blocked_detection\<close>.\<close>

definition create_safe_detection :: "env \<Rightarrow> request_data \<Rightarrow> real \<Rightarrow> ThreatDetection" where
  "create_safe_detection e rd start_time =
     \<lparr>threat_type = ''none'', severity_level = 0, confidence = 1.0,
      source_ip = get_default [] (req_ip rd),
      user_agent = get_default [] (req_user_agent rd),
      request_path = get_default [] (req_path rd),
      threat_data = Status ''whitelisted'', spider_score = 0.0,
      detection_time = (t_end e - start_time) * 1000,
      recommended_action = ''allow''\<rparr>"

definition create_blocked_detection :: "env \<Rightarrow> request_data \<Rightarrow> real \<Rightarrow> ThreatDetection" where
  "create_blocked_detection e rd start_time =
     \<lparr>threat_type = ''blocked_ip'', severity_level = 10, confidence = 1.0,
      source_ip = get_default [] (req_ip rd),
      user_agent = get_default [] (req_user_agent rd),
      request_path = get_default [] (req_path rd),
      threat_data = Status ''blocked'', spider_score = 10.0,
      detection_time = (t_end e - start_time) * 1000,
      recommended_action = ''block_immediately''\<rparr>"

text \<open>\<^verbatim>\<open>_store_threat_detection\<close>: the insert, whose failure is caught and logged.\<close>

definition store_threat_detection :: "env \<Rightarrow> ThreatDetection \<Rightarrow> sentinel \<Rightarrow> sentinel" where
  "store_threat_detection e detection st =
     (if db_available e then st\<lparr>threats_table := threats_table st @ [detection]\<rparr> else st)"

text \<open>\<^verbatim>\<open>_update_metrics\<close>, on a latency in seconds. The counter starts at zero and is
  only ever incremented, so it is a \<open>nat\<close> and the divisor is positive.\<close>

definition update_metrics :: "real \<Rightarrow> sentinel \<Rightarrow> sentinel" where
  "update_metrics seconds st =
     (let detection_time_ms = seconds * 1000;
          n = detection_count st + 1
      in st\<lparr>detection_count := n,
            avg_detection_time :=
              (avg_detection_time st * real (n - 1) + detection_time_ms) / real n\<rparr>)"

text \<open>\<^verbatim>\<open>asyncio.wait_for(self.spider_api.analyze_threat(request_data), timeout)\<close>: the
  coroutine's result if it is suspended for less than the timeout, otherwise
  \<^verbatim>\<open>asyncio.TimeoutError\<close> and the coroutine cancelled.\<close>

definition wait_for_analyze_threat ::
  "real \<Rightarrow> env \<Rightarrow> request_data \<Rightarrow> sentinel \<Rightarrow> (exn + spider_result) \<times> sentinel" where
  "wait_for_analyze_threat timeout e rd st =
     (let st1 = st\<lparr>wait_for_log := wait_for_log st @ [timeout]\<rparr>;
          api = spider_api st1
      in if analyze_threat_suspended e rd api < timeout
         then (let (result, api') = analyze_threat e rd api
               in (Inr result, st1\<lparr>spider_api := api'\<rparr>))
         else (Inl AsyncioTimeoutError, st1\<lparr>spider_api := analyze_threat_cancelled api\<rparr>))"

text \<open>The two statements after the \<^verbatim>\<open>await\<close>: the remote score is attached to the
  detection, and a score above 8.0 raises the severity to at least 9 and sets the action.\<close>

definition apply_spider_result :: "spider_result \<Rightarrow> ThreatDetection \<Rightarrow> ThreatDetection" where
  "apply_spider_result spider_result local_detection =
     (let d = local_detection\<lparr>spider_score := get_default 0.0 (threat_score spider_result)\<rparr>
      in if get_default 0 (threat_score spider_result) > 8.0
         then d\<lparr>severity_level := max (severity_level d) 9,
                recommended_action := ''block_immediately''\<rparr>
         else d)"

text \<open>The branch for medium threats: the remote call under its timeout of 0.03 seconds,
  and the two handlers, which keep the local detection.\<close>

definition spider_enhance ::
  "env \<Rightarrow> request_data \<Rightarrow> ThreatDetection \<Rightarrow> sentinel \<Rightarrow> ThreatDetection \<times> sentinel" where
  "spider_enhance e rd local_detection st =
     (case wait_for_analyze_threat 0.03 e rd st of
        (Inr spider_result, st') \<Rightarrow> (apply_spider_result spider_result local_detection, st')
      | (Inl AsyncioTimeoutError, st') \<Rightarrow> (local_detection, st')
      | (Inl (OtherException msg), st') \<Rightarrow> (local_detection, st'))"

text \<open>\<^verbatim>\<open>SentinelBot.analyze_request\<close>.\<close>

definition SentinelBot_analyze_request ::
  "env \<Rightarrow> request_data \<Rightarrow> sentinel \<Rightarrow> ThreatDetection \<times> sentinel" where
  "SentinelBot_analyze_request e rd st =
     (let start_time = t_start e;
          source_ip = get_default [] (req_ip rd)
      in if source_ip \<in> whitelist_ips st then (create_safe_detection e rd start_time, st)
         else if source_ip \<in> blocked_ips st then (create_blocked_detection e rd start_time, st)
         else
           (let (local_detection, rc') =
                  LocalThreatDetector_analyze_request e rd (request_counts st);
                st1 = st\<lparr>request_counts := rc'\<rparr>
            in if severity_level local_detection \<ge> 8
               then (local_detection,
                     update_metrics (t_end e - start_time)
                       (store_threat_detection e local_detection st1))
               else
                 (let (detection, st2) =
                        (if severity_level local_detection \<ge> 5
                         then spider_enhance e rd local_detection st1
                         else (local_detection, st1));
                      st3 = store_threat_detection e detection st2;
                      detection_time = t_end e - start_time
                  in (detection, update_metrics detection_time st3))))"

section \<open>Derived notions\<close>

subsection \<open>The language of a pattern\<close>

text \<open>The texts a pattern matches, defined without reference to the matcher: the
  iteration of a language, the language of each constructor, and the remainders of a
  text after a prefix in a language.\<close>

inductive_set rx_star :: "string set \<Rightarrow> string set" for L :: "string set" where
  rx_star_empty: "[] \<in> rx_star L"
| rx_star_more: "u \<in> L \<Longrightarrow> v \<in> rx_star L \<Longrightarrow> u @ v \<in> rx_star L"

primrec lang :: "rx \<Rightarrow> string set" where
  "lang Eps = {[]}"
| "lang (Chr p) = {[c] | c. lower_char c = lower_char p}"
| "lang (NotChr p) = {[c] | c. lower_char c \<noteq> lower_char p}"
| "lang Dot = {[c] | c. c \<noteq> newline}"
| "lang Word = {[c] | c. is_word_char c}"
| "lang Space = {[c] | c. is_space_char c}"
| "lang (Seq r1 r2) = {u @ v | u v. u \<in> lang r1 \<and> v \<in> lang r2}"
| "lang (Alt r1 r2) = lang r1 \<union> lang r2"
| "lang (Star r) = rx_star (lang r)"
| "lang (Plus r) = {u @ v | u v. u \<in> lang r \<and> v \<in> rx_star (lang r)}"

definition remainders :: "string set \<Rightarrow> string \<Rightarrow> string set" where
  "remainders L s = {t. \<exists>u. u \<in> L \<and> s = u @ t}"

subsection \<open>Views of one classification\<close>

text \<open>The detection that \<^verbatim>\<open>LocalThreatDetector.analyze_request\<close> returns when the classifier
  calls it in state \<open>st\<close>; its severity is the local severity of the request.\<close>

definition local_detection :: "env \<Rightarrow> request_data \<Rightarrow> sentinel \<Rightarrow> ThreatDetection" where
  "local_detection e rd st = fst (LocalThreatDetector_analyze_request e rd (request_counts st))"

text \<open>The request's address is in neither list, so the classification runs the
  detector.\<close>

definition unlisted :: "request_data \<Rightarrow> sentinel \<Rightarrow> bool" where
  "unlisted rd st =
     (get_default [] (req_ip rd) \<notin> whitelist_ips st \<and> get_default [] (req_ip rd) \<notin> blocked_ips st)"

text \<open>The part of \<^verbatim>\<open>SentinelBot.analyze_request\<close> between the list checks and the
  store: the local analysis and, for a severity from 5 to 7, the remote call. The first
  two branches of the source after the local analysis, the early return for a severity of
  at least 8 and the test for at least 5, select exactly this range.\<close>

definition remote_stage :: "env \<Rightarrow> request_data \<Rightarrow> sentinel \<Rightarrow> ThreatDetection \<times> sentinel" where
  "remote_stage e rd st =
     (let st1 = st\<lparr>request_counts := snd (LocalThreatDetector_analyze_request e rd (request_counts st))\<rparr>
      in if 5 \<le> severity_level (local_detection e rd st) \<and> severity_level (local_detection e rd st) < 8
         then spider_enhance e rd (local_detection e rd st) st1
         else (local_detection e rd st, st1))"

text \<open>What the \<^verbatim>\<open>await\<close> on the remote call delivers under its timeout, and the
  client it leaves behind, as functions of the client alone.\<close>

definition remote_outcome :: "env \<Rightarrow> request_data \<Rightarrow> spider_api \<Rightarrow> exn + spider_result" where
  "remote_outcome e rd api =
     (if analyze_threat_suspended e rd api < 0.03
      then Inr (fst (analyze_threat e rd api)) else Inl AsyncioTimeoutError)"

definition remote_client_after :: "env \<Rightarrow> request_data \<Rightarrow> spider_api \<Rightarrow> spider_api" where
  "remote_client_after e rd api =
     (if analyze_threat_suspended e rd api < 0.03
      then snd (analyze_threat e rd api) else analyze_threat_cancelled api)"

text \<open>The six evaluator results of one local analysis, in the order the source
  calls them; the signals among them; and the step by which \<^verbatim>\<open>max_severity\<close>
  grows.\<close>

definition evaluator_results :: "env \<Rightarrow> request_data \<Rightarrow> request_counts \<Rightarrow> threat option list" where
  "evaluator_results e rd rc =
     [check_sql_injection (get_default [] (req_path rd)) (get_default [] (req_query_params rd)),
      check_xss (get_default [] (req_path rd)) (get_default [] (req_query_params rd)),
      check_path_traversal (get_default [] (req_path rd)),
      check_user_agent (get_default [] (req_user_agent rd)),
      fst (check_rate_limiting (t_rate e) (get_default [] (req_ip rd)) rc),
      check_suspicious_headers (get_default [] (req_headers rd))]"

fun collect :: "threat option list \<Rightarrow> threat list" where
  "collect [] = []"
| "collect (None # rs) = collect rs"
| "collect (Some t # rs) = t # collect rs"

definition raise_to :: "int \<Rightarrow> threat option \<Rightarrow> int" where
  "raise_to m r = (case r of None \<Rightarrow> m | Some t \<Rightarrow> max m (severity t))"

subsection \<open>The rate window\<close>

text \<open>The timestamps recorded for an address (none when the address is not a key),
  and those of them that a call at time \<open>now\<close> keeps: the ones after
  \<open>now - rate_limit_window\<close>.\<close>

definition entries :: "request_counts \<Rightarrow> string \<Rightarrow> (real \<times> int) list" where
  "entries rc ip = (case rc ip of None \<Rightarrow> [] | Some rs \<Rightarrow> rs)"

definition window_entries :: "real \<Rightarrow> string \<Rightarrow> request_counts \<Rightarrow> (real \<times> int) list" where
  "window_entries now ip rc =
     filter (\<lambda>(timestamp, count). now - rate_limit_window < timestamp) (entries rc ip)"




subsection \<open>Runs of classifications\<close>

text \<open>The classifier after a list of classifications, each with its environment, and
  the condition that each of them looks the cache up no later than time \<open>t\<close>.\<close>

fun classify_all :: "(env \<times> request_data) list \<Rightarrow> sentinel \<Rightarrow> sentinel" where
  "classify_all [] st = st"
| "classify_all ((e, rd) # rest) st = classify_all rest (snd (SentinelBot_analyze_request e rd st))"

definition lookups_by :: "real \<Rightarrow> (env \<times> request_data) list \<Rightarrow> bool" where
  "lookups_by t cs = (\<forall>(e, rd) \<in> set cs. t_cache_check e \<le> t)"

subsection \<open>The deadline described in the specification\<close>

text \<open>The specification asks for a remote deadline of \<open>min(remaining_budget, 30ms)\<close>.
  The remaining budget, in seconds, is the target of 50 ms less the time that has passed
  between the entry of the classification and the end of the local analysis.\<close>

definition spec_remaining_budget :: "env \<Rightarrow> real" where
  "spec_remaining_budget e = target_response_time / 1000 - (t_local_end e - t_start e)"

definition spec_remote_deadline :: "env \<Rightarrow> real" where
  "spec_remote_deadline e = min (spec_remaining_budget e) 0.03"

subsection \<open>Example inputs\<close>

text \<open>A classifier that has just been constructed, and variants of it with the
  address \<^verbatim>\<open>10.0.0.1\<close> on a list or with one recorded latency of 10 ms.\<close>

definition fresh_bot :: sentinel where
  "fresh_bot = \<lparr>spider_api = \<lparr>cache = Map.empty, posts = 0\<rparr>, request_counts = Map.empty,
      blocked_ips = {}, whitelist_ips = {}, detection_count = 0, avg_detection_time = 0.0,
      threats_table = [], wait_for_log = []\<rparr>"

definition allow_bot :: sentinel where
  "allow_bot = fresh_bot\<lparr>whitelist_ips := {''10.0.0.1''}\<rparr>"

definition block_bot :: sentinel where
  "block_bot = fresh_bot\<lparr>blocked_ips := {''10.0.0.1''}\<rparr>"

definition both_lists_bot :: sentinel where
  "both_lists_bot = fresh_bot\<lparr>blocked_ips := {''10.0.0.1''}, whitelist_ips := {''10.0.0.1''}\<rparr>"

definition warmed_bot :: sentinel where
  "warmed_bot = fresh_bot\<lparr>detection_count := 1, avg_detection_time := 10\<rparr>"

text \<open>Requests from \<^verbatim>\<open>10.0.0.1\<close> for the path \<^verbatim>\<open>/\<close>: one from the scanner
  \<^verbatim>\<open>sqlmap/1.0\<close>, the same with an apostrophe in a query parameter, one from a
  browser, and one with a traversal in the path and a line break in a forwarded
  header.\<close>

definition scanner_request :: request_data where
  "scanner_request = \<lparr>req_ip = Some ''10.0.0.1'', req_user_agent = Some ''sqlmap/1.0'',
      req_path = Some ''/'', req_method = Some ''GET'', req_headers = Some [],
      req_query_params = Some []\<rparr>"

definition injection_request :: request_data where
  "injection_request = scanner_request\<lparr>req_query_params := Some [(''id'', [apostrophe])]\<rparr>"

definition benign_request :: request_data where
  "benign_request = scanner_request\<lparr>req_user_agent := Some ''Mozilla/5.0''\<rparr>"

definition injected_value :: string where
  "injected_value = ''1.1.1.1'' @ [newline] @ ''Host: x''"

definition traversal_request :: request_data where
  "traversal_request =
     \<lparr>req_ip = Some ''10.0.0.1'', req_user_agent = Some ''Mozilla/5.0'',
      req_path = Some ''/../x'', req_method = Some ''GET'',
      req_headers = Some [(''X-Real-IP'', injected_value)],
      req_query_params = Some []\<rparr>"

text \<open>Environments. In \<open>score9_env\<close> the local analysis ends 40 ms after the entry
  and the remote service answers within 5 ms with a score of 9.0; \<open>timeout_env\<close>
  differs in that the answer takes 200 ms, \<open>http500_env\<close> in that the status is 500;
  \<open>later_env\<close> is ten seconds later, with the network unreachable.\<close>

definition score9_result :: spider_result where
  "score9_result = \<lparr>threat_score = Some 9.0, threat_types = [], reputation = ''malicious''\<rparr>"

definition score9_response :: http_response where
  "score9_response = \<lparr>status = 200, json = Inr score9_result\<rparr>"

definition score9_env :: env where
  "score9_env = \<lparr>t_start = 0, t_local_start = 0.01, t_rate = 0.02, t_local_end = 0.04,
      t_cache_check = 0.04, t_cache_store = 0.045, t_end = 0.046,
      post_result = Inr score9_response,
      post_latency = 0.005, md5_hexdigest = (\<lambda>s. s), db_available = True\<rparr>"

definition timeout_env :: env where
  "timeout_env = score9_env\<lparr>post_latency := 0.2\<rparr>"

definition http500_response :: http_response where
  "http500_response = \<lparr>status = 500, json = Inl (OtherException ''no body'')\<rparr>"

definition http500_env :: env where
  "http500_env = score9_env\<lparr>post_result := Inr http500_response\<rparr>"

definition later_env :: env where
  "later_env = \<lparr>t_start = 10, t_local_start = 10.01, t_rate = 10.02, t_local_end = 10.04,
      t_cache_check = 10.04, t_cache_store = 10.045, t_end = 10.046,
      post_result = Inl (OtherException ''connection refused''),
      post_latency = 0.005, md5_hexdigest = (\<lambda>s. s), db_available = True\<rparr>"

text \<open>The classifier after it has classified the scanner's request once.\<close>

definition after_first :: sentinel where
  "after_first = snd (SentinelBot_analyze_request score9_env scanner_request fresh_bot)"

text \<open>The classifier after it has then classified the browser's request, too.\<close>

definition after_benign :: sentinel where
  "after_benign = classify_all [(score9_env, benign_request)] after_first"


section \<open>Properties\<close>

subsection \<open>The matcher computes the language of a pattern\<close>

lemma rx_one_remainders: "set (rx_one ok s) = remainders {[c] | c. ok c} s"
  by (cases s) (auto simp add: rx_one_def remainders_def)

lemma rx_iter_self: "s \<in> set (rx_iter step n s)"
  by (cases n) simp_all

lemma rx_iter_sound:
  assumes "\<And>s. set (step s) = remainders L s"
  shows "t \<in> set (rx_iter step n s) \<Longrightarrow> t \<in> remainders (rx_star L) s"
proof (induction n arbitrary: s)
  case 0
  then have "s = [] @ t" by simp
  then show ?case
    unfolding remainders_def using rx_star_empty by blast
next
  case (Suc n)
  show ?case
  proof (cases "t = s")
    case True
    then have "s = [] @ t" by simp
    then show ?thesis
      unfolding remainders_def using rx_star_empty by blast
  next
    case False
    with Suc.prems obtain s' where s': "s' \<in> set (step s)" and t: "t \<in> set (rx_iter step n s')"
      by auto
    from s' obtain u1 where u1: "u1 \<in> L" "s = u1 @ s'"
      by (auto simp add: assms remainders_def)
    from Suc.IH [OF t] obtain u2 where u2: "u2 \<in> rx_star L" "s' = u2 @ t"
      by (auto simp add: remainders_def)
    have "u1 @ u2 \<in> rx_star L"
      using u1(1) u2(1) by (rule rx_star_more)
    moreover have "s = (u1 @ u2) @ t"
      using u1(2) u2(2) by simp
    ultimately show ?thesis
      unfolding remainders_def by blast
  qed
qed

lemma rx_iter_complete:
  assumes "\<And>s. set (step s) = remainders L s"
  shows "u \<in> rx_star L \<Longrightarrow> length (u @ t) \<le> n \<Longrightarrow> t \<in> set (rx_iter step n (u @ t))"
proof (induction u arbitrary: n rule: rx_star.induct)
  case rx_star_empty
  show ?case by (simp add: rx_iter_self)
next
  case (rx_star_more u v)
  show ?case
  proof (cases "u = []")
    case True
    with rx_star_more show ?thesis by simp
  next
    case False
    with rx_star_more.prems obtain m where n: "n = Suc m"
      by (cases n) auto
    have l: "length (v @ t) \<le> m"
      using rx_star_more.prems False n by (cases u) auto
    have 1: "v @ t \<in> set (step ((u @ v) @ t))"
      using rx_star_more.hyps(1) by (auto simp add: assms remainders_def)
    have 2: "length (v @ t) < length ((u @ v) @ t)"
      using False by simp
    have 3: "t \<in> set (rx_iter step m (v @ t))"
      by (rule rx_star_more.IH [OF l])
    from 1 2 3 show ?thesis
      unfolding n by (auto intro!: bexI [of _ "v @ t"])
  qed
qed

lemma rx_iter_remainders:
  assumes "\<And>s. set (step s) = remainders L s"
  shows "set (rx_iter step (length s) s) = remainders (rx_star L) s"
proof (intro set_eqI iffI)
  fix t
  assume "t \<in> set (rx_iter step (length s) s)"
  then show "t \<in> remainders (rx_star L) s"
    by (rule rx_iter_sound [OF assms])
next
  fix t
  assume "t \<in> remainders (rx_star L) s"
  then obtain u where u: "u \<in> rx_star L" "s = u @ t"
    by (auto simp add: remainders_def)
  from rx_iter_complete [OF assms u(1), of t "length s"] u(2)
  show "t \<in> set (rx_iter step (length s) s)"
    by simp
qed

lemma remainders_seq:
  "(\<Union>t1 \<in> remainders A s. remainders B t1) = remainders {u @ v | u v. u \<in> A \<and> v \<in> B} s"
  by (fastforce simp add: remainders_def)

text \<open>The matcher returns exactly the remainders of a text after the prefixes in the
  language of the pattern, and the search succeeds exactly when some piece of the text is
  in that language.\<close>

lemma rx_match_remainders: "set (rx_match r s) = remainders (lang r) s"
proof (induction r arbitrary: s)
  case (Seq r1 r2)
  have "set (rx_match (Seq r1 r2) s) = (\<Union>t1 \<in> remainders (lang r1) s. remainders (lang r2) t1)"
    by (simp add: Seq)
  then show ?case
    by (simp only: remainders_seq lang.simps)
next
  case (Alt r1 r2)
  then show ?case
    by (auto simp add: remainders_def)
next
  case (Star r)
  show ?case
    using rx_iter_remainders [of "rx_match r" "lang r" s] Star by simp
next
  case (Plus r)
  have "set (rx_match (Plus r) s)
      = (\<Union>t1 \<in> remainders (lang r) s. remainders (rx_star (lang r)) t1)"
    using rx_iter_remainders [of "rx_match r" "lang r"] Plus by simp
  then show ?case
    by (simp only: remainders_seq lang.simps)
qed (simp_all add: rx_one_remainders remainders_def)

lemma re_search_iff: "re_search r s = (\<exists>u v w. s = u @ v @ w \<and> v \<in> lang r)"
proof (induction s)
  case Nil
  have "re_search r [] = (remainders (lang r) [] \<noteq> {})"
    by (simp add: rx_match_remainders [symmetric])
  then show ?case
    by (auto simp add: remainders_def)
next
  case (Cons c cs)
  have "re_search r (c # cs) = (remainders (lang r) (c # cs) \<noteq> {} \<or> re_search r cs)"
    by (simp add: rx_match_remainders [symmetric])
  also have "\<dots> = ((\<exists>v w. c # cs = v @ w \<and> v \<in> lang r)
      \<or> (\<exists>u v w. cs = u @ v @ w \<and> v \<in> lang r))"
    by (auto simp add: remainders_def Cons)
  also have "\<dots> = (\<exists>u v w. c # cs = u @ v @ w \<and> v \<in> lang r)"
  proof
    assume "(\<exists>v w. c # cs = v @ w \<and> v \<in> lang r) \<or> (\<exists>u v w. cs = u @ v @ w \<and> v \<in> lang r)"
    then show "\<exists>u v w. c # cs = u @ v @ w \<and> v \<in> lang r"
    proof
      assume "\<exists>v w. c # cs = v @ w \<and> v \<in> lang r"
      then obtain v w where "c # cs = [] @ v @ w" "v \<in> lang r" by auto
      then show ?thesis by blast
    next
      assume "\<exists>u v w. cs = u @ v @ w \<and> v \<in> lang r"
      then obtain u v w where "c # cs = (c # u) @ v @ w" "v \<in> lang r" by auto
      then show ?thesis by blast
    qed
  next
    assume "\<exists>u v w. c # cs = u @ v @ w \<and> v \<in> lang r"
    then obtain u v w where x: "c # cs = u @ v @ w" "v \<in> lang r" by blast
    show "(\<exists>v w. c # cs = v @ w \<and> v \<in> lang r) \<or> (\<exists>u v w. cs = u @ v @ w \<and> v \<in> lang r)"
    proof (cases u)
      case Nil
      with x show ?thesis by auto
    next
      case (Cons a u')
      with x have "cs = u' @ v @ w" by simp
      with x(2) show ?thesis by blast
    qed
  qed
  finally show ?case .
qed

subsection \<open>The paths of the classifier\<close>

lemma analyze_request_whitelisted:
  "get_default [] (req_ip rd) \<in> whitelist_ips st \<Longrightarrow>
   SentinelBot_analyze_request e rd st = (create_safe_detection e rd (t_start e), st)"
  by (simp add: SentinelBot_analyze_request_def)

lemma analyze_request_blocked:
  "get_default [] (req_ip rd) \<notin> whitelist_ips st \<Longrightarrow>
   get_default [] (req_ip rd) \<in> blocked_ips st \<Longrightarrow>
   SentinelBot_analyze_request e rd st = (create_blocked_detection e rd (t_start e), st)"
  by (simp add: SentinelBot_analyze_request_def)

lemma analyze_request_unlisted:
  assumes "unlisted rd st"
  shows "SentinelBot_analyze_request e rd st =
     (fst (remote_stage e rd st),
      update_metrics (t_end e - t_start e)
        (store_threat_detection e (fst (remote_stage e rd st)) (snd (remote_stage e rd st))))"
proof -
  obtain loc rc' where l: "LocalThreatDetector_analyze_request e rd (request_counts st) = (loc, rc')"
    by (cases "LocalThreatDetector_analyze_request e rd (request_counts st)")
  have ld: "local_detection e rd st = loc"
    by (simp add: local_detection_def l)
  from assms have u: "get_default [] (req_ip rd) \<notin> whitelist_ips st"
    "get_default [] (req_ip rd) \<notin> blocked_ips st"
    by (simp_all add: unlisted_def)
  show ?thesis
  proof (cases "8 \<le> severity_level loc")
    case True
    then show ?thesis
      using u by (simp add: SentinelBot_analyze_request_def remote_stage_def ld l Let_def)
  next
    case False
    then show ?thesis
      using u by (simp add: SentinelBot_analyze_request_def remote_stage_def ld l split_beta Let_def)
  qed
qed

text \<open>What each step leaves unchanged.\<close>

lemma update_metrics_fields:
  "detection_count (update_metrics s st) = detection_count st + 1"
  "avg_detection_time (update_metrics s st) =
     (avg_detection_time st * real (detection_count st) + s * 1000) / real (detection_count st + 1)"
  "spider_api (update_metrics s st) = spider_api st"
  "wait_for_log (update_metrics s st) = wait_for_log st"
  "request_counts (update_metrics s st) = request_counts st"
  "blocked_ips (update_metrics s st) = blocked_ips st"
  "whitelist_ips (update_metrics s st) = whitelist_ips st"
  by (simp_all add: update_metrics_def Let_def)

lemma store_threat_detection_fields:
  "detection_count (store_threat_detection e d st) = detection_count st"
  "avg_detection_time (store_threat_detection e d st) = avg_detection_time st"
  "spider_api (store_threat_detection e d st) = spider_api st"
  "wait_for_log (store_threat_detection e d st) = wait_for_log st"
  "request_counts (store_threat_detection e d st) = request_counts st"
  "blocked_ips (store_threat_detection e d st) = blocked_ips st"
  "whitelist_ips (store_threat_detection e d st) = whitelist_ips st"
  by (simp_all add: store_threat_detection_def)

lemma wait_for_analyze_threat_fields:
  "detection_count (snd (wait_for_analyze_threat t e rd st)) = detection_count st"
  "avg_detection_time (snd (wait_for_analyze_threat t e rd st)) = avg_detection_time st"
  "wait_for_log (snd (wait_for_analyze_threat t e rd st)) = wait_for_log st @ [t]"
  "request_counts (snd (wait_for_analyze_threat t e rd st)) = request_counts st"
  "blocked_ips (snd (wait_for_analyze_threat t e rd st)) = blocked_ips st"
  "whitelist_ips (snd (wait_for_analyze_threat t e rd st)) = whitelist_ips st"
  by (simp_all add: wait_for_analyze_threat_def Let_def split_beta)

lemma spider_enhance_snd:
  "snd (spider_enhance e rd d st) = snd (wait_for_analyze_threat 0.03 e rd st)"
  by (simp add: spider_enhance_def split: prod.splits sum.splits exn.splits)

lemma spider_enhance_fields:
  "detection_count (snd (spider_enhance e rd d st)) = detection_count st"
  "avg_detection_time (snd (spider_enhance e rd d st)) = avg_detection_time st"
  "wait_for_log (snd (spider_enhance e rd d st)) = wait_for_log st @ [0.03]"
  "request_counts (snd (spider_enhance e rd d st)) = request_counts st"
  "blocked_ips (snd (spider_enhance e rd d st)) = blocked_ips st"
  "whitelist_ips (snd (spider_enhance e rd d st)) = whitelist_ips st"
  by (simp_all only: spider_enhance_snd wait_for_analyze_threat_fields)

lemma remote_stage_metrics:
  "detection_count (snd (remote_stage e rd st)) = detection_count st"
  "avg_detection_time (snd (remote_stage e rd st)) = avg_detection_time st"
  "blocked_ips (snd (remote_stage e rd st)) = blocked_ips st"
  "whitelist_ips (snd (remote_stage e rd st)) = whitelist_ips st"
  by (simp_all add: remote_stage_def Let_def spider_enhance_fields)

lemma remote_stage_medium:
  assumes "5 \<le> severity_level (local_detection e rd st)"
    and "severity_level (local_detection e rd st) < 8"
  shows "remote_stage e rd st =
     spider_enhance e rd (local_detection e rd st)
       (st\<lparr>request_counts := snd (LocalThreatDetector_analyze_request e rd (request_counts st))\<rparr>)"
  using assms by (simp add: remote_stage_def Let_def)

lemma remote_stage_not_medium:
  assumes "8 \<le> severity_level (local_detection e rd st) \<or> severity_level (local_detection e rd st) < 5"
  shows "fst (remote_stage e rd st) = local_detection e rd st"
    and "spider_api (snd (remote_stage e rd st)) = spider_api st"
    and "wait_for_log (snd (remote_stage e rd st)) = wait_for_log st"
  using assms by (auto simp add: remote_stage_def Let_def)

lemma analyze_request_lists:
  "blocked_ips (snd (SentinelBot_analyze_request e rd st)) = blocked_ips st"
  "whitelist_ips (snd (SentinelBot_analyze_request e rd st)) = whitelist_ips st"
proof -
  have "blocked_ips (snd (SentinelBot_analyze_request e rd st)) = blocked_ips st
      \<and> whitelist_ips (snd (SentinelBot_analyze_request e rd st)) = whitelist_ips st"
  proof (cases "unlisted rd st")
    case True
    then show ?thesis
      by (simp add: analyze_request_unlisted update_metrics_fields store_threat_detection_fields
          remote_stage_metrics)
  next
    case False
    then show ?thesis
      by (cases "get_default [] (req_ip rd) \<in> whitelist_ips st")
        (simp_all add: unlisted_def analyze_request_whitelisted analyze_request_blocked)
  qed
  then show "blocked_ips (snd (SentinelBot_analyze_request e rd st)) = blocked_ips st"
    and "whitelist_ips (snd (SentinelBot_analyze_request e rd st)) = whitelist_ips st"
    by simp_all
qed

lemma analyze_request_request_counts:
  assumes "unlisted rd st"
  shows "request_counts (snd (SentinelBot_analyze_request e rd st)) =
     snd (check_rate_limiting (t_rate e) (get_default [] (req_ip rd)) (request_counts st))"
proof -
  have l: "snd (LocalThreatDetector_analyze_request e rd rc) =
      snd (check_rate_limiting (t_rate e) (get_default [] (req_ip rd)) rc)" for rc
    by (simp add: LocalThreatDetector_analyze_request_def Let_def split_beta)
  show ?thesis
    by (simp add: analyze_request_unlisted [OF assms] update_metrics_fields
        store_threat_detection_fields remote_stage_def Let_def spider_enhance_fields l)
qed

lemma not_medium_client:
  assumes "unlisted rd st"
    and "8 \<le> severity_level (local_detection e rd st) \<or> severity_level (local_detection e rd st) < 5"
  shows "spider_api (snd (SentinelBot_analyze_request e rd st)) = spider_api st"
    and "fst (SentinelBot_analyze_request e rd st) = local_detection e rd st"
  by (simp_all add: analyze_request_unlisted [OF assms(1)] remote_stage_not_medium [OF assms(2)]
      update_metrics_fields store_threat_detection_fields)

subsection \<open>The local analysis in closed form\<close>

lemma add_threat_pair:
  "add_threat r (ts, m) = (ts @ collect [r], raise_to m r)"
  by (cases r) (simp_all add: add_threat_def raise_to_def)

lemma collect_six:
  "collect [a] @ collect [b] @ collect [c] @ collect [d] @ collect [f] @ collect [g]
     = collect [a, b, c, d, f, g]"
  by (cases a; cases b; cases c; cases d; cases f; cases g) simp_all

lemma local_closed_form:
  "fst (LocalThreatDetector_analyze_request e rd rc) =
     (let rs = evaluator_results e rd rc; threats = collect rs; max_severity = foldl raise_to 0 rs
      in \<lparr>threat_type = (case threats of [] \<Rightarrow> ''none'' | t # _ \<Rightarrow> ttype t),
          severity_level = max_severity,
          confidence = min 0.95 (real (length threats) * 0.2 + (real_of_int max_severity / 10) * 0.5),
          source_ip = get_default [] (req_ip rd),
          user_agent = get_default [] (req_user_agent rd),
          request_path = get_default [] (req_path rd),
          threat_data = Threats threats (get_default ''GET'' (req_method rd)),
          spider_score = 0,
          detection_time = (t_local_end e - t_local_start e) * 1000,
          recommended_action = action_for max_severity\<rparr>)"
  unfolding LocalThreatDetector_analyze_request_def evaluator_results_def
  by (simp only: Let_def split_beta add_threat_pair fst_conv snd_conv append_Nil append_assoc
      collect_six foldl.simps) simp

lemma local_detection_spider_score: "spider_score (local_detection e rd st) = 0"
  by (simp add: local_detection_def LocalThreatDetector_analyze_request_def Let_def split_beta)

lemma local_severity:
  "severity_level (local_detection e rd st) =
     foldl raise_to 0 (evaluator_results e rd (request_counts st))"
  by (simp add: local_detection_def local_closed_form Let_def)

lemma local_threat_type:
  "threat_type (local_detection e rd st) =
     (case collect (evaluator_results e rd (request_counts st)) of
        [] \<Rightarrow> ''none'' | t # _ \<Rightarrow> ttype t)"
  by (simp add: local_detection_def local_closed_form Let_def)

lemma local_action:
  "recommended_action (local_detection e rd st) = action_for (severity_level (local_detection e rd st))"
  by (simp add: local_detection_def local_closed_form Let_def)

lemma medium_action:
  assumes "5 \<le> severity_level (local_detection e rd st)"
    and "severity_level (local_detection e rd st) < 8"
  shows "recommended_action (local_detection e rd st) = ''rate_limit''"
  using assms by (simp add: local_action action_for_def)

lemma raise_to_mono: "m \<le> raise_to m r"
  by (cases r) (simp_all add: raise_to_def)

lemma foldl_raise_to_mono: "m \<le> foldl raise_to m rs"
proof (induction rs arbitrary: m)
  case Nil
  show ?case by simp
next
  case (Cons r rs)
  have "m \<le> raise_to m r" by (rule raise_to_mono)
  also have "\<dots> \<le> foldl raise_to (raise_to m r) rs" by (rule Cons.IH)
  finally show ?case by simp
qed

text \<open>The type and the severity of each evaluator's signal.\<close>

lemma check_sql_injection_Some:
  "check_sql_injection p q = Some t \<Longrightarrow> ttype t = ''sql_injection'' \<and> severity t = 9"
  by (auto simp: check_sql_injection_def split: option.splits)

lemma check_xss_Some:
  "check_xss p q = Some t \<Longrightarrow> ttype t = ''xss'' \<and> severity t = 7"
  by (auto simp: check_xss_def split: option.splits)

lemma check_path_traversal_Some:
  "check_path_traversal p = Some t \<Longrightarrow> ttype t = ''path_traversal'' \<and> severity t = 6"
  by (auto simp: check_path_traversal_def split: option.splits)

lemma check_user_agent_Some:
  "check_user_agent ua = Some t \<Longrightarrow> ttype t = ''suspicious_user_agent'' \<and> severity t = 5"
  by (auto simp: check_user_agent_def Let_def split: option.splits)

lemma check_rate_limiting_Some:
  "fst (check_rate_limiting now ip rc) = Some t \<Longrightarrow>
     ttype t = ''rate_limit_violation'' \<and> severity t = 6"
  by (auto simp: check_rate_limiting_def Let_def split: if_splits)

lemma check_suspicious_headers_Some:
  "check_suspicious_headers hs = Some t \<Longrightarrow> ttype t = ''header_injection'' \<and> severity t = 7"
  by (auto simp: check_suspicious_headers_def split: option.splits)

lemma first_collected:
  "(case collect (r # rs) of [] \<Rightarrow> d | t # _ \<Rightarrow> ttype t) =
     (case r of Some t \<Rightarrow> ttype t | None \<Rightarrow> (case collect rs of [] \<Rightarrow> d | t # _ \<Rightarrow> ttype t))"
  by (cases r) simp_all

subsection \<open>The remote client\<close>

lemma analyze_threat_success:
  assumes "cache_lookup e rd api = None"
    and "post_result e = Inr resp" and "status resp = 200" and "json resp = Inr r"
  shows "analyze_threat e rd api =
     (r, api\<lparr>posts := posts api + 1,
             cache := (cache api)(cache_key e rd \<mapsto> (r, t_cache_store e))\<rparr>)"
  using assms by (simp add: analyze_threat_def analyze_threat_try_def Let_def)

lemma analyze_threat_failure:
  assumes "cache_lookup e rd api = None"
    and "(\<exists>ex. post_result e = Inl ex)
       \<or> (\<exists>resp. post_result e = Inr resp \<and> (status resp \<noteq> 200 \<or> (\<exists>ex. json resp = Inl ex)))"
  shows "analyze_threat e rd api = (neutral_score, api\<lparr>posts := posts api + 1\<rparr>)"
  using assms
  by (auto simp add: analyze_threat_def analyze_threat_try_def Let_def split: exn.splits)

lemma analyze_threat_hit:
  assumes "cache_lookup e rd api = Some r"
  shows "analyze_threat e rd api = (r, api)"
  using assms by (simp add: analyze_threat_def)

lemma cache_lookup_entry:
  assumes "cache api (cache_key e rd) = Some (r, ts)" and "t_cache_check e - ts < cache_ttl"
  shows "cache_lookup e rd api = Some r"
  using assms by (simp add: cache_lookup_def)

text \<open>A cache entry that is still within its TTL at every lookup is never
  overwritten.\<close>

lemma analyze_threat_keeps_entry:
  assumes "cache api k = Some (r, ts)" and "t_cache_check e - ts < cache_ttl"
  shows "cache (snd (analyze_threat e rd api)) k = Some (r, ts)"
proof (cases "cache_lookup e rd api")
  case (Some c)
  then show ?thesis
    using assms(1) by (simp add: analyze_threat_hit)
next
  case None
  have k: "cache_key e rd \<noteq> k"
  proof
    assume "cache_key e rd = k"
    with assms have "cache_lookup e rd api = Some r"
      by (simp add: cache_lookup_def)
    with None show False by simp
  qed
  show ?thesis
    using assms(1) k
    by (simp add: analyze_threat_def None analyze_threat_try_def Let_def
        split: sum.splits exn.splits)
qed

lemma remote_client_after_keeps_entry:
  assumes "cache api k = Some (r, ts)" and "t_cache_check e - ts < cache_ttl"
  shows "cache (remote_client_after e rd api) k = Some (r, ts)"
  using assms analyze_threat_keeps_entry [OF assms]
  by (simp add: remote_client_after_def analyze_threat_cancelled_def)

lemma wait_for_outcome:
  "fst (wait_for_analyze_threat 0.03 e rd st) = remote_outcome e rd (spider_api st)"
  "spider_api (snd (wait_for_analyze_threat 0.03 e rd st)) = remote_client_after e rd (spider_api st)"
  by (simp_all add: wait_for_analyze_threat_def remote_outcome_def remote_client_after_def
      Let_def split_beta)

lemma remote_hit:
  assumes "cache_lookup e rd api = Some r"
  shows "remote_outcome e rd api = Inr r" and "remote_client_after e rd api = api"
  using assms
  by (simp_all add: remote_outcome_def remote_client_after_def analyze_threat_suspended_def
      analyze_threat_hit)

lemma remote_success:
  assumes "cache_lookup e rd api = None" and "post_latency e < 0.03"
    and "post_result e = Inr resp" and "status resp = 200" and "json resp = Inr r"
  shows "remote_outcome e rd api = Inr r"
    and "remote_client_after e rd api =
       api\<lparr>posts := posts api + 1,
           cache := (cache api)(cache_key e rd \<mapsto> (r, t_cache_store e))\<rparr>"
  using assms(1,2)
  by (simp_all add: remote_outcome_def remote_client_after_def analyze_threat_suspended_def
      analyze_threat_success [OF assms(1,3,4,5)])

lemma remote_client_failure:
  assumes "cache_lookup e rd api = None" and "post_latency e < 0.03"
    and "(\<exists>ex. post_result e = Inl ex)
       \<or> (\<exists>resp. post_result e = Inr resp \<and> (status resp \<noteq> 200 \<or> (\<exists>ex. json resp = Inl ex)))"
  shows "remote_outcome e rd api = Inr neutral_score"
  using assms(1,2)
  by (simp add: remote_outcome_def analyze_threat_suspended_def
      analyze_threat_failure [OF assms(1,3)])

lemma remote_late:
  assumes "cache_lookup e rd api = None" and "0.03 \<le> post_latency e"
  shows "remote_outcome e rd api = Inl AsyncioTimeoutError"
  using assms by (simp add: remote_outcome_def analyze_threat_suspended_def)

lemma spider_enhance_fst:
  "fst (spider_enhance e rd d st) =
     (case remote_outcome e rd (spider_api st) of
        Inr r \<Rightarrow> apply_spider_result r d
      | Inl ex \<Rightarrow> d)"
  unfolding wait_for_outcome(1) [symmetric]
  by (simp add: spider_enhance_def split: prod.splits sum.splits exn.splits)

lemma spider_enhance_api:
  "spider_api (snd (spider_enhance e rd d st)) = remote_client_after e rd (spider_api st)"
  by (simp only: spider_enhance_snd wait_for_outcome(2))

lemma apply_spider_result_fields:
  "spider_score (apply_spider_result r d) = get_default 0 (threat_score r)"
  "severity_level (apply_spider_result r d) =
     (if 8 < get_default 0 (threat_score r) then max (severity_level d) 9 else severity_level d)"
  "recommended_action (apply_spider_result r d) =
     (if 8 < get_default 0 (threat_score r) then ''block_immediately'' else recommended_action d)"
  by (simp_all add: apply_spider_result_def Let_def)

lemma apply_neutral_score:
  "spider_score d = 0 \<Longrightarrow> apply_spider_result neutral_score d = d"
  by (simp add: apply_spider_result_def Let_def neutral_score_def get_default_def)

text \<open>The detection and the client after a classification that reaches the remote
  stage.\<close>

lemma medium_classification:
  assumes "unlisted rd st"
    and "5 \<le> severity_level (local_detection e rd st)"
    and "severity_level (local_detection e rd st) < 8"
  shows "fst (SentinelBot_analyze_request e rd st) =
     (case remote_outcome e rd (spider_api st) of
        Inr r \<Rightarrow> apply_spider_result r (local_detection e rd st)
      | Inl ex \<Rightarrow> local_detection e rd st)"
    and "spider_api (snd (SentinelBot_analyze_request e rd st)) =
       remote_client_after e rd (spider_api st)"
  by (simp_all add: analyze_request_unlisted [OF assms(1)] remote_stage_medium [OF assms(2,3)]
      spider_enhance_fst spider_enhance_api update_metrics_fields store_threat_detection_fields)

lemma classification_threat_type:
  assumes "unlisted rd st"
  shows "threat_type (fst (SentinelBot_analyze_request e rd st))
       = threat_type (local_detection e rd st)"
proof -
  have a: "threat_type (apply_spider_result r d) = threat_type d" for r d
    by (simp add: apply_spider_result_def Let_def)
  have "threat_type (fst (remote_stage e rd st)) = threat_type (local_detection e rd st)"
    by (simp add: remote_stage_def Let_def spider_enhance_fst a split: sum.splits)
  then show ?thesis
    by (simp add: analyze_request_unlisted [OF assms])
qed

lemma classification_keeps_entry:
  assumes "cache (spider_api st) k = Some (r, ts)" and "t_cache_check e - ts < cache_ttl"
  shows "cache (spider_api (snd (SentinelBot_analyze_request e rd st))) k = Some (r, ts)"
proof (cases "unlisted rd st")
  case False
  then show ?thesis
    using assms(1)
    by (cases "get_default [] (req_ip rd) \<in> whitelist_ips st")
      (simp_all add: unlisted_def analyze_request_whitelisted analyze_request_blocked)
next
  case u: True
  show ?thesis
  proof (cases "5 \<le> severity_level (local_detection e rd st)
      \<and> severity_level (local_detection e rd st) < 8")
    case True
    then have "spider_api (snd (SentinelBot_analyze_request e rd st))
        = remote_client_after e rd (spider_api st)"
      by (simp add: medium_classification(2) [OF u])
    then show ?thesis
      by (simp add: remote_client_after_keeps_entry [OF assms])
  next
    case False
    then have "8 \<le> severity_level (local_detection e rd st)
        \<or> severity_level (local_detection e rd st) < 5"
      by auto
    then show ?thesis
      using assms(1) by (simp add: not_medium_client(1) [OF u])
  qed
qed

lemma classify_all_keeps_entry:
  assumes "cache (spider_api st) k = Some (r, ts)" and "lookups_by t cs" and "t - ts < cache_ttl"
  shows "cache (spider_api (classify_all cs st)) k = Some (r, ts)"
  using assms(1,2)
proof (induction cs arbitrary: st)
  case Nil
  then show ?case by simp
next
  case (Cons c cs)
  obtain e rd where c: "c = (e, rd)"
    by (cases c)
  from Cons.prems(2) have e: "t_cache_check e \<le> t" and rest: "lookups_by t cs"
    by (simp_all add: lookups_by_def c)
  from e assms(3) have "t_cache_check e - ts < cache_ttl"
    by simp
  then have "cache (spider_api (snd (SentinelBot_analyze_request e rd st))) k = Some (r, ts)"
    by (rule classification_keeps_entry [OF Cons.prems(1)])
  then show ?case
    unfolding c classify_all.simps by (rule Cons.IH [OF _ rest])
qed

lemma classify_all_lists:
  "blocked_ips (classify_all cs st) = blocked_ips st"
  "whitelist_ips (classify_all cs st) = whitelist_ips st"
  by (induction cs arbitrary: st) (auto simp add: analyze_request_lists)

subsection \<open>The rate window\<close>



lemma check_rate_limiting_signal:
  "(fst (check_rate_limiting now ip rc) \<noteq> None) =
     (100 < sum_list (map snd (window_entries now ip rc @ [(now, 1)])))"
  by (simp add: check_rate_limiting_def Let_def entries_def window_entries_def
      rate_limit_threshold_def split: option.splits)








subsection \<open>The running average\<close>

lemma mean_step:
  fixes avg :: real
  assumes "ls \<noteq> [] \<longrightarrow> avg = sum_list ls / real (length ls)"
  shows "(avg * real (length ls) + x) / real (length ls + 1)
       = sum_list (ls @ [x]) / real (length (ls @ [x]))"
proof (cases "ls = []")
  case True
  then show ?thesis by simp
next
  case False
  with assms have "avg * real (length ls) = sum_list ls"
    by simp
  then show ?thesis by simp
qed

subsection \<open>The example inputs evaluated\<close>

lemmas rx_eval = lit_def quote_or_27_def tag_pair_def rx_one_def lower_char_def apostrophe_def
  newline_def carriage_return_def backslash_def is_word_char_def is_space_char_def

lemma no_sql_in_root: "check_sql_injection ''/'' [] = None"
  by (simp add: check_sql_injection_def sql_injection_patterns_def combined_input_def rx_eval)

lemma no_xss_in_root: "check_xss ''/'' [] = None"
  by (simp add: check_xss_def xss_patterns_def combined_input_def rx_eval)

lemma no_traversal_in_root: "check_path_traversal ''/'' = None"
  by (simp add: check_path_traversal_def path_traversal_patterns_def rx_eval)

lemma sqlmap_user_agent:
  "check_user_agent ''sqlmap/1.0'' =
     Some \<lparr>ttype = ''suspicious_user_agent'', severity = 5,
           evidence = MatchedUserAgent ''sqlmap'', location = ''headers''\<rparr>"
  by (simp add: check_user_agent_def suspicious_user_agents_def lower_def lower_char_def)

lemma mozilla_user_agent: "check_user_agent ''Mozilla/5.0'' = None"
  by (simp add: check_user_agent_def suspicious_user_agents_def lower_def lower_char_def)

lemma first_request_in_window: "fst (check_rate_limiting t ip Map.empty) = None"
  by (simp add: check_rate_limiting_def rate_limit_threshold_def)

lemma no_headers: "check_suspicious_headers [] = None"
  by (simp add: check_suspicious_headers_def)

lemma apostrophe_is_sql:
  "check_sql_injection ''/'' [(''id'', [apostrophe])] \<noteq> None"
  by (simp add: check_sql_injection_def sql_injection_patterns_def combined_input_def rx_eval)

lemma scanner_results:
  "evaluator_results e scanner_request Map.empty =
     [None, None, None,
      Some \<lparr>ttype = ''suspicious_user_agent'', severity = 5,
            evidence = MatchedUserAgent ''sqlmap'', location = ''headers''\<rparr>,
      None, None]"
  by (simp add: evaluator_results_def scanner_request_def get_default_def no_sql_in_root
      no_xss_in_root no_traversal_in_root sqlmap_user_agent first_request_in_window no_headers)

lemma scanner_severity: "severity_level (local_detection e scanner_request fresh_bot) = 5"
  by (simp add: local_severity fresh_bot_def scanner_results raise_to_def)

lemma scanner_unlisted: "unlisted scanner_request fresh_bot"
  by (simp add: unlisted_def fresh_bot_def)

lemma scanner_unlisted_warmed: "unlisted scanner_request warmed_bot"
  by (simp add: unlisted_def warmed_bot_def fresh_bot_def)

lemma benign_results:
  "evaluator_results e benign_request Map.empty = [None, None, None, None, None, None]"
  by (simp add: evaluator_results_def benign_request_def scanner_request_def get_default_def
      no_sql_in_root no_xss_in_root no_traversal_in_root mozilla_user_agent
      first_request_in_window no_headers)

lemma benign_severity: "severity_level (local_detection e benign_request fresh_bot) = 0"
  by (simp add: local_severity fresh_bot_def benign_results raise_to_def)

lemma injection_severity_any:
  "9 \<le> severity_level (local_detection e injection_request st)"
proof -
  obtain t where t: "check_sql_injection ''/'' [(''id'', [apostrophe])] = Some t"
    using apostrophe_is_sql by blast
  obtain rs where rs: "evaluator_results e injection_request (request_counts st) = Some t # rs"
    by (simp add: evaluator_results_def injection_request_def scanner_request_def
        get_default_def t)
  have "9 \<le> raise_to 0 (Some t)"
    using check_sql_injection_Some [OF t] by (simp add: raise_to_def)
  also have "\<dots> \<le> foldl raise_to (raise_to 0 (Some t)) rs"
    by (rule foldl_raise_to_mono)
  finally show ?thesis
    by (simp add: local_severity rs)
qed

lemma traversal_results:
  "evaluator_results e traversal_request Map.empty =
     [None, None,
      Some \<lparr>ttype = ''path_traversal'', severity = 6, evidence = MatchedPattern (lit ''../''),
            location = ''path''\<rparr>,
      None, None,
      Some \<lparr>ttype = ''header_injection'', severity = 7, evidence = OffendingHeader ''X-Real-IP'',
            location = ''headers''\<rparr>]"
proof -
  have 1: "check_sql_injection ''/../x'' [] = None"
    by (simp add: check_sql_injection_def sql_injection_patterns_def combined_input_def rx_eval)
  have 2: "check_xss ''/../x'' [] = None"
    by (simp add: check_xss_def xss_patterns_def combined_input_def rx_eval)
  have 3: "check_path_traversal ''/../x'' =
      Some \<lparr>ttype = ''path_traversal'', severity = 6, evidence = MatchedPattern (lit ''../''),
            location = ''path''\<rparr>"
    by (simp add: check_path_traversal_def path_traversal_patterns_def rx_eval)
  have 6: "check_suspicious_headers [(''X-Real-IP'', injected_value)] =
      Some \<lparr>ttype = ''header_injection'', severity = 7, evidence = OffendingHeader ''X-Real-IP'',
            location = ''headers''\<rparr>"
    by (simp add: check_suspicious_headers_def suspicious_headers_def lower_def lower_char_def
        char_of_eq_iff injected_value_def)
  show ?thesis
    by (simp add: evaluator_results_def traversal_request_def get_default_def 1 2 3 6
        mozilla_user_agent first_request_in_window)
qed

lemma traversal_unlisted: "unlisted traversal_request fresh_bot"
  by (simp add: unlisted_def fresh_bot_def)

lemma fresh_cache_miss: "cache_lookup e rd (spider_api fresh_bot) = None"
  by (simp add: cache_lookup_def fresh_bot_def)

lemma after_first_facts:
  "spider_score (fst (SentinelBot_analyze_request score9_env scanner_request fresh_bot)) = 9"
  "spider_api after_first =
     \<lparr>cache = [cache_key score9_env scanner_request \<mapsto> (score9_result, t_cache_store score9_env)],
      posts = 1\<rparr>"
  "unlisted rd after_first"
  "request_counts after_first = [''10.0.0.1'' \<mapsto> [(0.02, 1)]]"
proof -
  have m: "5 \<le> severity_level (local_detection score9_env scanner_request fresh_bot)"
    "severity_level (local_detection score9_env scanner_request fresh_bot) < 8"
    by (simp_all add: scanner_severity)
  have ok: "post_latency score9_env < 0.03" "post_result score9_env = Inr score9_response"
    "status score9_response = 200" "json score9_response = Inr score9_result"
    by (simp_all add: score9_env_def score9_response_def)
  show "spider_score (fst (SentinelBot_analyze_request score9_env scanner_request fresh_bot)) = 9"
    by (simp add: medium_classification(1) [OF scanner_unlisted m]
        remote_success(1) [OF fresh_cache_miss ok] apply_spider_result_fields score9_result_def
        get_default_def)
  show "spider_api after_first =
     \<lparr>cache = [cache_key score9_env scanner_request \<mapsto> (score9_result, t_cache_store score9_env)],
      posts = 1\<rparr>"
    unfolding after_first_def
    by (simp only: medium_classification(2) [OF scanner_unlisted m]
        remote_success(2) [OF fresh_cache_miss ok]) (simp add: fresh_bot_def)
  show "unlisted rd after_first"
    by (simp add: unlisted_def after_first_def analyze_request_lists fresh_bot_def)
  show "request_counts after_first = [''10.0.0.1'' \<mapsto> [(0.02, 1)]]"
    unfolding after_first_def analyze_request_request_counts [OF scanner_unlisted]
    by (simp add: check_rate_limiting_def Let_def fresh_bot_def scanner_request_def
        get_default_def score9_env_def)
qed

lemma after_benign_facts:
  "unlisted rd after_benign"
  "request_counts after_benign ''10.0.0.1'' = Some [(0.02, 1), (0.02, 1)]"
proof -
  show "unlisted rd after_benign"
    using after_first_facts(3) [of rd]
    by (simp add: unlisted_def after_benign_def analyze_request_lists)
  have "request_counts after_benign =
      snd (check_rate_limiting (t_rate score9_env) (get_default [] (req_ip benign_request))
            (request_counts after_first))"
    by (simp add: after_benign_def analyze_request_request_counts [OF after_first_facts(3)])
  then show "request_counts after_benign ''10.0.0.1'' = Some [(0.02, 1), (0.02, 1)]"
    by (simp add: after_first_facts(4) check_rate_limiting_def Let_def benign_request_def
        scanner_request_def get_default_def score9_env_def rate_limit_window_def)
qed

lemma scanner_severity_after_benign:
  "severity_level (local_detection later_env scanner_request after_benign) = 5"
proof -
  have "fst (check_rate_limiting (t_rate later_env) ''10.0.0.1'' (request_counts after_benign))
      = None"
    using check_rate_limiting_signal [of "t_rate later_env" "''10.0.0.1''"
        "request_counts after_benign"]
    by (simp add: window_entries_def entries_def after_benign_facts(2) later_env_def
        rate_limit_window_def)
  then have "evaluator_results later_env scanner_request (request_counts after_benign) =
     [None, None, None,
      Some \<lparr>ttype = ''suspicious_user_agent'', severity = 5,
            evidence = MatchedUserAgent ''sqlmap'', location = ''headers''\<rparr>,
      None, None]"
    by (simp add: evaluator_results_def scanner_request_def get_default_def no_sql_in_root
        no_xss_in_root no_traversal_in_root sqlmap_user_agent no_headers)
  then show ?thesis
    by (simp add: local_severity raise_to_def)
qed

lemma benign_lookup_earlier:
  "lookups_by (t_cache_check later_env) [(score9_env, benign_request)]"
  by (simp add: lookups_by_def later_env_def score9_env_def)

subsection \<open>Claim C1: the remote score when the remote service is not consulted\<close>

text \<open>Claim C1 states that the remote score of the result is 0 on each of the four
  paths that do not consult the remote service. It fails for a block-listed address: the
  client is left untouched, and the score of the result is not 0.\<close>

theorem blocked_remote_score_counterexample:
  "get_default [] (req_ip scanner_request) \<in> blocked_ips block_bot
   \<and> spider_api (snd (SentinelBot_analyze_request score9_env scanner_request block_bot))
       = spider_api block_bot
   \<and> spider_score (fst (SentinelBot_analyze_request score9_env scanner_request block_bot)) \<noteq> 0"
  by (simp add: SentinelBot_analyze_request_def scanner_request_def get_default_def
      block_bot_def fresh_bot_def create_blocked_detection_def)

text \<open>Claim C1, amended. On the four paths that do not consult the remote service, the
  remote score is 0 for an allow-listed address, for a local severity of at least 8 and
  for a local severity below 5, and it is 10 for a block-listed address. On all four the
  client is unchanged and no remote call is awaited.\<close>

theorem remote_score_without_remote_call:
  fixes e rd st
  defines "ip \<equiv> get_default [] (req_ip rd)"
    and "d \<equiv> fst (SentinelBot_analyze_request e rd st)"
    and "st' \<equiv> snd (SentinelBot_analyze_request e rd st)"
    and "sev \<equiv> severity_level (local_detection e rd st)"
  shows "(ip \<in> whitelist_ips st \<longrightarrow>
            spider_score d = 0 \<and> spider_api st' = spider_api st \<and> wait_for_log st' = wait_for_log st)
       \<and> (ip \<notin> whitelist_ips st \<and> ip \<in> blocked_ips st \<longrightarrow>
            spider_score d = 10 \<and> spider_api st' = spider_api st \<and> wait_for_log st' = wait_for_log st)
       \<and> (ip \<notin> whitelist_ips st \<and> ip \<notin> blocked_ips st \<and> (8 \<le> sev \<or> sev < 5) \<longrightarrow>
            spider_score d = 0 \<and> spider_api st' = spider_api st \<and> wait_for_log st' = wait_for_log st)"
proof -
  have a: "spider_score d = 0 \<and> spider_api st' = spider_api st \<and> wait_for_log st' = wait_for_log st"
    if "ip \<in> whitelist_ips st"
    using that unfolding ip_def d_def st'_def
    by (simp add: analyze_request_whitelisted create_safe_detection_def)
  have b: "spider_score d = 10 \<and> spider_api st' = spider_api st \<and> wait_for_log st' = wait_for_log st"
    if "ip \<notin> whitelist_ips st" "ip \<in> blocked_ips st"
    using that unfolding ip_def d_def st'_def
    by (simp add: analyze_request_blocked create_blocked_detection_def)
  have c: "spider_score d = 0 \<and> spider_api st' = spider_api st \<and> wait_for_log st' = wait_for_log st"
    if "ip \<notin> whitelist_ips st" "ip \<notin> blocked_ips st" "8 \<le> sev \<or> sev < 5"
  proof -
    from that have u: "unlisted rd st"
      and s: "8 \<le> severity_level (local_detection e rd st)
        \<or> severity_level (local_detection e rd st) < 5"
      by (simp_all add: unlisted_def ip_def sev_def)
    show ?thesis
      unfolding d_def st'_def
      by (simp add: analyze_request_unlisted [OF u] remote_stage_not_medium [OF s]
          local_detection_spider_score update_metrics_fields store_threat_detection_fields)
  qed
  from a b c show ?thesis by blast
qed

text \<open>The amended claim C1 at an allow-listed and a block-listed address, at a request
  of local severity 9 and at one of local severity 0.\<close>

theorem remote_score_without_remote_call_witness:
  "(get_default [] (req_ip scanner_request) \<in> whitelist_ips allow_bot
      \<and> spider_score (fst (SentinelBot_analyze_request score9_env scanner_request allow_bot)) = 0)
   \<and> (get_default [] (req_ip scanner_request) \<notin> whitelist_ips block_bot
      \<and> get_default [] (req_ip scanner_request) \<in> blocked_ips block_bot
      \<and> spider_score (fst (SentinelBot_analyze_request score9_env scanner_request block_bot)) = 10)
   \<and> (get_default [] (req_ip injection_request) \<notin> whitelist_ips fresh_bot
      \<and> get_default [] (req_ip injection_request) \<notin> blocked_ips fresh_bot
      \<and> 8 \<le> severity_level (local_detection score9_env injection_request fresh_bot)
      \<and> spider_score (fst (SentinelBot_analyze_request score9_env injection_request fresh_bot)) = 0)
   \<and> (get_default [] (req_ip benign_request) \<notin> whitelist_ips fresh_bot
      \<and> get_default [] (req_ip benign_request) \<notin> blocked_ips fresh_bot
      \<and> severity_level (local_detection score9_env benign_request fresh_bot) < 5
      \<and> spider_score (fst (SentinelBot_analyze_request score9_env benign_request fresh_bot)) = 0)"
proof -
  have a: "get_default [] (req_ip scanner_request) \<in> whitelist_ips allow_bot"
    by (simp add: scanner_request_def get_default_def allow_bot_def fresh_bot_def)
  have b: "get_default [] (req_ip scanner_request) \<notin> whitelist_ips block_bot
      \<and> get_default [] (req_ip scanner_request) \<in> blocked_ips block_bot"
    by (simp add: scanner_request_def get_default_def block_bot_def fresh_bot_def)
  have c: "get_default [] (req_ip injection_request) \<notin> whitelist_ips fresh_bot
      \<and> get_default [] (req_ip injection_request) \<notin> blocked_ips fresh_bot
      \<and> 8 \<le> severity_level (local_detection score9_env injection_request fresh_bot)"
    using injection_severity_any [of score9_env fresh_bot] by (simp add: fresh_bot_def)
  have d: "get_default [] (req_ip benign_request) \<notin> whitelist_ips fresh_bot
      \<and> get_default [] (req_ip benign_request) \<notin> blocked_ips fresh_bot
      \<and> severity_level (local_detection score9_env benign_request fresh_bot) < 5"
    by (simp add: benign_severity) (simp add: fresh_bot_def)
  from a b c d
    remote_score_without_remote_call [of scanner_request allow_bot score9_env]
    remote_score_without_remote_call [of scanner_request block_bot score9_env]
    remote_score_without_remote_call [of injection_request fresh_bot score9_env]
    remote_score_without_remote_call [of benign_request fresh_bot score9_env]
  show ?thesis by blast
qed

subsection \<open>Claim C2: the deadline of the remote call\<close>

text \<open>Claim C2 states that, for a local severity from 5 to 7, the remote call is
  issued with the deadline \<open>min(remaining_budget, 30ms)\<close>. It fails where less than
  30 ms remain: with 40 ms of the 50 ms spent, the specification's deadline is 10 ms and
  the call is awaited with a timeout of 30 ms.\<close>

theorem fixed_deadline_counterexample:
  "unlisted scanner_request fresh_bot
   \<and> 5 \<le> severity_level (local_detection score9_env scanner_request fresh_bot)
   \<and> severity_level (local_detection score9_env scanner_request fresh_bot) < 8
   \<and> wait_for_log (snd (SentinelBot_analyze_request score9_env scanner_request fresh_bot))
       = wait_for_log fresh_bot @ [0.03]
   \<and> spec_remote_deadline score9_env = 0.01
   \<and> wait_for_log (snd (SentinelBot_analyze_request score9_env scanner_request fresh_bot))
       \<noteq> wait_for_log fresh_bot @ [spec_remote_deadline score9_env]"
proof -
  have m: "5 \<le> severity_level (local_detection score9_env scanner_request fresh_bot)"
    "severity_level (local_detection score9_env scanner_request fresh_bot) < 8"
    by (simp_all add: scanner_severity)
  have l: "wait_for_log (snd (SentinelBot_analyze_request score9_env scanner_request fresh_bot))
      = wait_for_log fresh_bot @ [0.03]"
    by (simp add: analyze_request_unlisted [OF scanner_unlisted] update_metrics_fields
        store_threat_detection_fields remote_stage_medium [OF m] spider_enhance_fields)
  have d: "spec_remote_deadline score9_env = 0.01"
    by (simp add: spec_remote_deadline_def spec_remaining_budget_def score9_env_def
        target_response_time_def)
  show ?thesis
    using scanner_unlisted m by (simp add: l d)
qed

text \<open>Claim C2, amended. For every classification of an unlisted address whose local
  severity is from 5 to 7, the remote call is awaited exactly once, with a timeout of
  0.03 seconds, whatever the readings of the clock.\<close>

theorem remote_deadline_is_fixed:
  assumes "unlisted rd st"
    and "5 \<le> severity_level (local_detection e rd st)"
    and "severity_level (local_detection e rd st) < 8"
  shows "wait_for_log (snd (SentinelBot_analyze_request e rd st)) = wait_for_log st @ [0.03]"
  by (simp add: analyze_request_unlisted [OF assms(1)] update_metrics_fields
      store_threat_detection_fields remote_stage_medium [OF assms(2,3)] spider_enhance_fields)

text \<open>The amended claim C2 at the scanner's request.\<close>

theorem remote_deadline_is_fixed_witness:
  "unlisted scanner_request fresh_bot
   \<and> 5 \<le> severity_level (local_detection timeout_env scanner_request fresh_bot)
   \<and> severity_level (local_detection timeout_env scanner_request fresh_bot) < 8
   \<and> wait_for_log (snd (SentinelBot_analyze_request timeout_env scanner_request fresh_bot))
       = wait_for_log fresh_bot @ [0.03]"
proof -
  have m: "5 \<le> severity_level (local_detection timeout_env scanner_request fresh_bot)"
    "severity_level (local_detection timeout_env scanner_request fresh_bot) < 8"
    by (simp_all add: scanner_severity)
  from remote_deadline_is_fixed [OF scanner_unlisted m] scanner_unlisted m
  show ?thesis by blast
qed

subsection \<open>Claim C3: the header-injection evaluator\<close>

text \<open>Claim C3 states that a line break in the value of any header, whatever its name,
  produces the signal. It fails for a header named \<^verbatim>\<open>X-Custom\<close>.\<close>

theorem header_name_counterexample:
  "newline \<in> set (''a'' @ [newline] @ ''b'')
   \<and> check_suspicious_headers [(''X-Custom'', ''a'' @ [newline] @ ''b'')] = None"
  by (simp add: check_suspicious_headers_def suspicious_headers_def lower_def lower_char_def)

text \<open>Claim C3, amended. The evaluator produces a signal exactly when some header
  whose lower-cased name is \<^verbatim>\<open>x-forwarded-for\<close>, \<^verbatim>\<open>x-real-ip\<close> or
  \<^verbatim>\<open>x-originating-ip\<close> has a value that contains a newline or a carriage return;
  the signal is of type \<open>header_injection\<close> and of severity 7.\<close>

theorem header_injection_signal:
  "(check_suspicious_headers headers \<noteq> None) =
     (\<exists>(name, v) \<in> set headers.
        lower name \<in> {''x-forwarded-for'', ''x-real-ip'', ''x-originating-ip''}
        \<and> (newline \<in> set v \<or> carriage_return \<in> set v))
   \<and> (\<forall>t. check_suspicious_headers headers = Some t \<longrightarrow>
          ttype t = ''header_injection'' \<and> severity t = 7)"
proof -
  let ?P = "\<lambda>(name, v). lower name \<in> set suspicious_headers
               \<and> (newline \<in> set v \<or> carriage_return \<in> set v)"
  have s: "set suspicious_headers = {''x-forwarded-for'', ''x-real-ip'', ''x-originating-ip''}"
    by (simp add: suspicious_headers_def)
  have "(check_suspicious_headers headers = None) = (find ?P headers = None)"
    by (simp add: check_suspicious_headers_def split: option.splits prod.splits)
  also have "\<dots> = (\<not> (\<exists>x \<in> set headers. ?P x))"
    by (simp only: find_None_iff Bex_def)
  finally have a: "(check_suspicious_headers headers \<noteq> None) = (\<exists>x \<in> set headers. ?P x)"
    by simp
  have b: "\<forall>t. check_suspicious_headers headers = Some t \<longrightarrow>
          ttype t = ''header_injection'' \<and> severity t = 7"
    by (auto simp add: check_suspicious_headers_def split: option.splits)
  from a b show ?thesis
    unfolding s by blast
qed

text \<open>The amended claim C3 at a header \<^verbatim>\<open>X-Real-IP\<close> whose value holds a
  newline.\<close>

theorem header_injection_signal_witness:
  "(\<exists>(name, v) \<in> set [(''X-Real-IP'', injected_value)].
        lower name \<in> {''x-forwarded-for'', ''x-real-ip'', ''x-originating-ip''}
        \<and> (newline \<in> set v \<or> carriage_return \<in> set v))
   \<and> check_suspicious_headers [(''X-Real-IP'', injected_value)] \<noteq> None
   \<and> check_suspicious_headers [(''X-Real-IP'', injected_value)] =
       Some \<lparr>ttype = ''header_injection'', severity = 7,
             evidence = OffendingHeader ''X-Real-IP'', location = ''headers''\<rparr>"
proof -
  have h: "\<exists>(name, v) \<in> set [(''X-Real-IP'', injected_value)].
        lower name \<in> {''x-forwarded-for'', ''x-real-ip'', ''x-originating-ip''}
        \<and> (newline \<in> set v \<or> carriage_return \<in> set v)"
    by (simp add: lower_def lower_char_def char_of_eq_iff injected_value_def)
  have v: "check_suspicious_headers [(''X-Real-IP'', injected_value)] =
       Some \<lparr>ttype = ''header_injection'', severity = 7,
             evidence = OffendingHeader ''X-Real-IP'', location = ''headers''\<rparr>"
    by (simp add: check_suspicious_headers_def suspicious_headers_def lower_def lower_char_def
        char_of_eq_iff injected_value_def)
  from header_injection_signal [of "[(''X-Real-IP'', injected_value)]"] h v
  show ?thesis by blast
qed

subsection \<open>Claim C4: the metrics update\<close>

text \<open>Claim C4 states that every classification, on every path, increases the
  classification count by 1. It fails for an allow-listed address, whose classification
  returns before the metrics are touched.\<close>

theorem allow_listed_metrics_counterexample:
  "get_default [] (req_ip scanner_request) \<in> whitelist_ips allow_bot
   \<and> detection_count (snd (SentinelBot_analyze_request score9_env scanner_request allow_bot))
       \<noteq> detection_count allow_bot + 1"
proof -
  have w: "get_default [] (req_ip scanner_request) \<in> whitelist_ips allow_bot"
    by (simp add: scanner_request_def get_default_def allow_bot_def fresh_bot_def)
  have "detection_count (snd (SentinelBot_analyze_request score9_env scanner_request allow_bot))
      = detection_count allow_bot"
    by (simp add: analyze_request_whitelisted [OF w])
  with w show ?thesis by simp
qed

text \<open>Claim C4, amended. A classification of an allow-listed or block-listed address
  leaves the count and the running average unchanged. Every other classification
  increases the count by exactly 1, and if the running average was the arithmetic mean
  of the latencies \<open>ls\<close> recorded so far, it becomes the arithmetic mean of \<open>ls\<close>
  and the latency of this classification, in milliseconds.\<close>

theorem metrics_update_on_detection:
  fixes e rd st
  defines "st' \<equiv> snd (SentinelBot_analyze_request e rd st)"
    and "latency_ms \<equiv> (t_end e - t_start e) * 1000"
  shows "(\<not> unlisted rd st \<longrightarrow>
            detection_count st' = detection_count st
            \<and> avg_detection_time st' = avg_detection_time st)
       \<and> (unlisted rd st \<longrightarrow>
            detection_count st' = detection_count st + 1
            \<and> (\<forall>ls. length ls = detection_count st
                     \<and> (ls \<noteq> [] \<longrightarrow> avg_detection_time st = sum_list ls / real (length ls))
                   \<longrightarrow> avg_detection_time st'
                       = sum_list (ls @ [latency_ms]) / real (length (ls @ [latency_ms]))))"
proof -
  have a: "detection_count st' = detection_count st
      \<and> avg_detection_time st' = avg_detection_time st" if "\<not> unlisted rd st"
  proof (cases "get_default [] (req_ip rd) \<in> whitelist_ips st")
    case True
    then show ?thesis
      by (simp add: st'_def analyze_request_whitelisted)
  next
    case False
    with that have "get_default [] (req_ip rd) \<in> blocked_ips st"
      by (simp add: unlisted_def)
    with False show ?thesis
      by (simp add: st'_def analyze_request_blocked)
  qed
  have b: "detection_count st' = detection_count st + 1" if "unlisted rd st"
    by (simp add: st'_def analyze_request_unlisted [OF that] update_metrics_fields
        store_threat_detection_fields remote_stage_metrics)
  have c: "avg_detection_time st'
      = sum_list (ls @ [latency_ms]) / real (length (ls @ [latency_ms]))"
    if u: "unlisted rd st" and n: "length ls = detection_count st"
      and m: "ls \<noteq> [] \<longrightarrow> avg_detection_time st = sum_list ls / real (length ls)" for ls
  proof -
    have "avg_detection_time st'
        = (avg_detection_time st * real (length ls) + latency_ms) / real (length ls + 1)"
      by (simp add: st'_def latency_ms_def analyze_request_unlisted [OF u] update_metrics_fields
          store_threat_detection_fields remote_stage_metrics n)
    also have "\<dots> = sum_list (ls @ [latency_ms]) / real (length (ls @ [latency_ms]))"
      by (rule mean_step [OF m])
    finally show ?thesis .
  qed
  from a b c show ?thesis by blast
qed

text \<open>The amended claim C4 at an allow-listed address, and at an unlisted one after
  one recorded latency of 10 ms: the new latency is 46 ms and the average becomes
  28 ms.\<close>

theorem metrics_update_on_detection_witness:
  "\<not> unlisted scanner_request allow_bot
   \<and> detection_count (snd (SentinelBot_analyze_request score9_env scanner_request allow_bot))
       = detection_count allow_bot
   \<and> unlisted scanner_request warmed_bot
   \<and> length [10 :: real] = detection_count warmed_bot
   \<and> avg_detection_time warmed_bot = sum_list [10] / real (length [10 :: real])
   \<and> detection_count (snd (SentinelBot_analyze_request score9_env scanner_request warmed_bot)) = 2
   \<and> avg_detection_time (snd (SentinelBot_analyze_request score9_env scanner_request warmed_bot))
       = 28"
proof -
  have a: "\<not> unlisted scanner_request allow_bot"
    by (simp add: unlisted_def allow_bot_def fresh_bot_def scanner_request_def get_default_def)
  have n: "length [10 :: real] = detection_count warmed_bot"
    and m: "avg_detection_time warmed_bot = sum_list [10] / real (length [10 :: real])"
    and c: "detection_count warmed_bot = 1"
    by (simp_all add: warmed_bot_def fresh_bot_def)
  have l: "(t_end score9_env - t_start score9_env) * 1000 = 46"
    by (simp add: score9_env_def)
  from metrics_update_on_detection [of scanner_request allow_bot score9_env] a
  have 1: "detection_count (snd (SentinelBot_analyze_request score9_env scanner_request allow_bot))
       = detection_count allow_bot"
    by blast
  from metrics_update_on_detection [of scanner_request warmed_bot score9_env]
    scanner_unlisted_warmed n m
  have 2: "detection_count (snd (SentinelBot_analyze_request score9_env scanner_request warmed_bot))
        = detection_count warmed_bot + 1
      \<and> avg_detection_time (snd (SentinelBot_analyze_request score9_env scanner_request warmed_bot))
        = sum_list ([10] @ [(t_end score9_env - t_start score9_env) * 1000])
          / real (length ([10] @ [(t_end score9_env - t_start score9_env) * 1000]))"
    by blast
  from a 1 2 [unfolded l c] scanner_unlisted_warmed n m show ?thesis
    by simp
qed

subsection \<open>Claim C5: the outcome of the remote enhancement\<close>

text \<open>Claim C5. For a classification of an unlisted address with a local severity from
  5 to 7 that reaches the remote call (nothing usable is cached): if the service answers
  within the timeout with status 200 and a threat score above 8.0, the result has
  severity \<open>max(local_severity, 9)\<close> and the action \<open>block_immediately\<close>; if the
  call times out or fails (an exception of the post, a status other than 200, a body
  that does not decode), the result keeps the local severity and the local action, which
  is \<open>rate_limit\<close>.\<close>

theorem remote_enhancement_outcome:
  fixes e rd st
  defines "d \<equiv> fst (SentinelBot_analyze_request e rd st)"
    and "loc \<equiv> local_detection e rd st"
  assumes u: "unlisted rd st"
    and m: "5 \<le> severity_level loc" "severity_level loc < 8"
    and miss: "cache_lookup e rd (spider_api st) = None"
  shows "(post_latency e < 0.03 \<and> post_result e = Inr resp \<and> status resp = 200
            \<and> json resp = Inr r \<and> threat_score r = Some x \<and> 8 < x \<longrightarrow>
          severity_level d = max (severity_level loc) 9
          \<and> recommended_action d = ''block_immediately'' \<and> spider_score d = x)
       \<and> (0.03 \<le> post_latency e \<or> (\<exists>ex. post_result e = Inl ex)
            \<or> (\<exists>resp'. post_result e = Inr resp'
                  \<and> (status resp' \<noteq> 200 \<or> (\<exists>ex. json resp' = Inl ex))) \<longrightarrow>
          severity_level d = severity_level loc
          \<and> recommended_action d = recommended_action loc
          \<and> recommended_action loc = ''rate_limit'')"
proof -
  have m': "5 \<le> severity_level (local_detection e rd st)"
    "severity_level (local_detection e rd st) < 8"
    using m by (simp_all add: loc_def)
  have d: "d = (case remote_outcome e rd (spider_api st) of
        Inr r \<Rightarrow> apply_spider_result r loc | Inl ex \<Rightarrow> loc)"
    unfolding d_def loc_def by (rule medium_classification(1) [OF u m'])
  have a: "severity_level d = max (severity_level loc) 9
      \<and> recommended_action d = ''block_immediately'' \<and> spider_score d = x"
    if "post_latency e < 0.03" "post_result e = Inr resp" "status resp = 200"
      "json resp = Inr r" "threat_score r = Some x" "8 < x"
  proof -
    have "remote_outcome e rd (spider_api st) = Inr r"
      by (rule remote_success(1) [OF miss that(1,2,3,4)])
    then have "d = apply_spider_result r loc"
      by (simp add: d)
    then show ?thesis
      using that(5,6) by (simp add: apply_spider_result_fields get_default_def)
  qed
  have act: "recommended_action loc = ''rate_limit''"
    unfolding loc_def by (rule medium_action [OF m'])
  have b: "severity_level d = severity_level loc \<and> recommended_action d = recommended_action loc"
    if "0.03 \<le> post_latency e"
  proof -
    have "remote_outcome e rd (spider_api st) = Inl AsyncioTimeoutError"
      by (rule remote_late [OF miss that])
    then show ?thesis
      by (simp add: d)
  qed
  have c: "severity_level d = severity_level loc \<and> recommended_action d = recommended_action loc"
    if f: "(\<exists>ex. post_result e = Inl ex)
       \<or> (\<exists>resp'. post_result e = Inr resp' \<and> (status resp' \<noteq> 200 \<or> (\<exists>ex. json resp' = Inl ex)))"
  proof (cases "post_latency e < 0.03")
    case True
    have "remote_outcome e rd (spider_api st) = Inr neutral_score"
      by (rule remote_client_failure [OF miss True f])
    then have "d = apply_spider_result neutral_score loc"
      by (simp add: d)
    then show ?thesis
      by (simp add: apply_spider_result_fields neutral_score_def get_default_def)
  next
    case False
    then show ?thesis
      using b by simp
  qed
  from a b c act show ?thesis
    by blast
qed

text \<open>Claim C5 at the scanner's request, of local severity 5: a remote score of 9.0
  gives severity 9 and \<open>block_immediately\<close>, a remote call that takes 200 ms gives
  severity 5 and \<open>rate_limit\<close>.\<close>

theorem remote_enhancement_outcome_witness:
  "unlisted scanner_request fresh_bot
   \<and> 5 \<le> severity_level (local_detection score9_env scanner_request fresh_bot)
   \<and> severity_level (local_detection score9_env scanner_request fresh_bot) < 8
   \<and> cache_lookup score9_env scanner_request (spider_api fresh_bot) = None
   \<and> post_latency score9_env < 0.03 \<and> post_result score9_env = Inr score9_response
   \<and> status score9_response = 200 \<and> json score9_response = Inr score9_result
   \<and> threat_score score9_result = Some 9 \<and> (8 :: real) < 9
   \<and> severity_level (fst (SentinelBot_analyze_request score9_env scanner_request fresh_bot)) = 9
   \<and> recommended_action (fst (SentinelBot_analyze_request score9_env scanner_request fresh_bot))
       = ''block_immediately''
   \<and> 0.03 \<le> post_latency timeout_env
   \<and> severity_level (fst (SentinelBot_analyze_request timeout_env scanner_request fresh_bot)) = 5
   \<and> recommended_action (fst (SentinelBot_analyze_request timeout_env scanner_request fresh_bot))
       = ''rate_limit''"
proof -
  have m: "5 \<le> severity_level (local_detection e scanner_request fresh_bot)"
    "severity_level (local_detection e scanner_request fresh_bot) < 8" for e
    by (simp_all add: scanner_severity)
  have h: "post_latency score9_env < 0.03 \<and> post_result score9_env = Inr score9_response
      \<and> status score9_response = 200 \<and> json score9_response = Inr score9_result
      \<and> threat_score score9_result = Some 9 \<and> (8 :: real) < 9"
    by (simp add: score9_env_def score9_response_def score9_result_def)
  have t: "0.03 \<le> post_latency timeout_env"
    by (simp add: timeout_env_def score9_env_def)
  from remote_enhancement_outcome [OF scanner_unlisted m fresh_cache_miss,
      of score9_env score9_response score9_result 9] h
  have 1: "severity_level (fst (SentinelBot_analyze_request score9_env scanner_request fresh_bot))
        = max (severity_level (local_detection score9_env scanner_request fresh_bot)) 9
      \<and> recommended_action (fst (SentinelBot_analyze_request score9_env scanner_request fresh_bot))
        = ''block_immediately''"
    by blast
  from remote_enhancement_outcome [OF scanner_unlisted m fresh_cache_miss,
      of timeout_env score9_response score9_result 9] t
  have 2: "severity_level (fst (SentinelBot_analyze_request timeout_env scanner_request fresh_bot))
        = severity_level (local_detection timeout_env scanner_request fresh_bot)
      \<and> recommended_action (fst (SentinelBot_analyze_request timeout_env scanner_request fresh_bot))
        = ''rate_limit''"
    by simp
  from scanner_unlisted m [of score9_env] fresh_cache_miss [of score9_env scanner_request] h t
    1 [unfolded scanner_severity] 2 [unfolded scanner_severity]
  show ?thesis by simp
qed

subsection \<open>Claim C6: the rate window\<close>



subsection \<open>Claim C7: the primary threat type\<close>

text \<open>Claim C7. The primary threat type of the local detection is the type of the
  first evaluator that matches, in the order \<open>sql_injection\<close>, \<open>xss\<close>,
  \<open>path_traversal\<close>, \<open>suspicious_user_agent\<close>, \<open>rate_limit_violation\<close>,
  \<open>header_injection\<close>, and it is \<open>none\<close> when no evaluator matches. The
  severities play no part. The classifier returns the same primary type for every
  address that is on neither list, that is, whenever the evaluators are run.\<close>

theorem primary_type_is_first_match:
  fixes e rd st
  defines "path \<equiv> get_default [] (req_path rd)"
    and "params \<equiv> get_default [] (req_query_params rd)"
    and "rc \<equiv> request_counts st"
  defines "first_match \<equiv>
     (if check_sql_injection path params \<noteq> None then ''sql_injection''
      else if check_xss path params \<noteq> None then ''xss''
      else if check_path_traversal path \<noteq> None then ''path_traversal''
      else if check_user_agent (get_default [] (req_user_agent rd)) \<noteq> None
        then ''suspicious_user_agent''
      else if fst (check_rate_limiting (t_rate e) (get_default [] (req_ip rd)) rc) \<noteq> None
        then ''rate_limit_violation''
      else if check_suspicious_headers (get_default [] (req_headers rd)) \<noteq> None
        then ''header_injection''
      else ''none'')"
  shows "threat_type (fst (LocalThreatDetector_analyze_request e rd rc)) = first_match
       \<and> (unlisted rd st \<longrightarrow>
            threat_type (fst (SentinelBot_analyze_request e rd st)) = first_match)"
proof -
  have "threat_type (fst (LocalThreatDetector_analyze_request e rd rc)) =
     (case collect (evaluator_results e rd rc) of [] \<Rightarrow> ''none'' | t # _ \<Rightarrow> ttype t)"
    by (simp add: local_closed_form Let_def)
  also have "\<dots> =
     (case check_sql_injection path params of Some t \<Rightarrow> ttype t | None \<Rightarrow>
       (case check_xss path params of Some t \<Rightarrow> ttype t | None \<Rightarrow>
         (case check_path_traversal path of Some t \<Rightarrow> ttype t | None \<Rightarrow>
           (case check_user_agent (get_default [] (req_user_agent rd)) of
              Some t \<Rightarrow> ttype t
            | None \<Rightarrow>
               (case fst (check_rate_limiting (t_rate e) (get_default [] (req_ip rd)) rc) of
                  Some t \<Rightarrow> ttype t
                | None \<Rightarrow>
                   (case check_suspicious_headers (get_default [] (req_headers rd)) of
                      Some t \<Rightarrow> ttype t
                    | None \<Rightarrow> ''none''))))))"
    unfolding evaluator_results_def path_def params_def
    by (simp only: first_collected collect.simps list.case)
  also have "\<dots> = first_match"
    unfolding first_match_def
    by (auto dest!: check_sql_injection_Some check_xss_Some check_path_traversal_Some
        check_user_agent_Some check_rate_limiting_Some check_suspicious_headers_Some
        split: option.splits)
  finally have l: "threat_type (fst (LocalThreatDetector_analyze_request e rd rc)) = first_match" .
  then have "threat_type (fst (SentinelBot_analyze_request e rd st)) = first_match"
    if "unlisted rd st"
    using classification_threat_type [OF that, of e] by (simp add: local_detection_def rc_def)
  with l show ?thesis
    by blast
qed

text \<open>Claim C7 at a request that matches path traversal (severity 6) and header
  injection (severity 7): the primary type is \<open>path_traversal\<close>, the severity 7.\<close>

theorem primary_type_is_first_match_witness:
  "unlisted traversal_request fresh_bot
   \<and> check_path_traversal (get_default [] (req_path traversal_request)) \<noteq> None
   \<and> check_suspicious_headers (get_default [] (req_headers traversal_request)) \<noteq> None
   \<and> severity_level (local_detection score9_env traversal_request fresh_bot) = 7
   \<and> threat_type (local_detection score9_env traversal_request fresh_bot) = ''path_traversal''
   \<and> threat_type (fst (SentinelBot_analyze_request score9_env traversal_request fresh_bot))
       = ''path_traversal''"
proof -
  have e: "request_counts fresh_bot = Map.empty"
    by (simp add: fresh_bot_def)
  have r: "evaluator_results score9_env traversal_request Map.empty =
     [check_sql_injection (get_default [] (req_path traversal_request))
        (get_default [] (req_query_params traversal_request)),
      check_xss (get_default [] (req_path traversal_request))
        (get_default [] (req_query_params traversal_request)),
      check_path_traversal (get_default [] (req_path traversal_request)),
      check_user_agent (get_default [] (req_user_agent traversal_request)),
      fst (check_rate_limiting (t_rate score9_env) (get_default [] (req_ip traversal_request))
             Map.empty),
      check_suspicious_headers (get_default [] (req_headers traversal_request))]"
    by (simp only: evaluator_results_def)
  have c: "check_sql_injection (get_default [] (req_path traversal_request))
        (get_default [] (req_query_params traversal_request)) = None"
    "check_xss (get_default [] (req_path traversal_request))
        (get_default [] (req_query_params traversal_request)) = None"
    "check_path_traversal (get_default [] (req_path traversal_request)) \<noteq> None"
    "check_suspicious_headers (get_default [] (req_headers traversal_request)) \<noteq> None"
    using traversal_results [of score9_env] unfolding r by simp_all
  have s: "severity_level (local_detection score9_env traversal_request fresh_bot) = 7"
    by (simp add: local_severity e traversal_results raise_to_def)
  from primary_type_is_first_match [of score9_env traversal_request fresh_bot] c
  have "threat_type (fst (LocalThreatDetector_analyze_request score9_env traversal_request
          (request_counts fresh_bot))) = ''path_traversal''
      \<and> (unlisted traversal_request fresh_bot \<longrightarrow>
          threat_type (fst (SentinelBot_analyze_request score9_env traversal_request fresh_bot))
            = ''path_traversal'')"
    by simp
  with traversal_unlisted c s show ?thesis
    by (simp add: local_detection_def)
qed

subsection \<open>Claim C8: failures of the remote call\<close>

text \<open>Claim C8. When nothing usable is cached and the remote call fails, by an
  exception of the post (a timeout or any other), by a status other than 200 or by a
  body that does not decode, \<^verbatim>\<open>analyze_threat\<close> returns the neutral score, with
  threat score 0 and reputation \<open>unknown\<close>, and stores nothing. For such a failure,
  and equally when the call outlasts its timeout, the classification of an unlisted
  address returns the local detection: no error reaches the caller.\<close>

theorem remote_failure_is_neutral:
  fixes e rd st
  defines "client_failure \<equiv>
       (\<exists>ex. post_result e = Inl ex)
       \<or> (\<exists>resp. post_result e = Inr resp \<and> (status resp \<noteq> 200 \<or> (\<exists>ex. json resp = Inl ex)))"
  assumes miss: "cache_lookup e rd (spider_api st) = None"
  shows "(client_failure \<longrightarrow>
            fst (analyze_threat e rd (spider_api st))
              = \<lparr>threat_score = Some 0, threat_types = [], reputation = ''unknown''\<rparr>
            \<and> cache (snd (analyze_threat e rd (spider_api st))) = cache (spider_api st))
       \<and> (unlisted rd st \<and> (client_failure \<or> 0.03 \<le> post_latency e) \<longrightarrow>
            fst (SentinelBot_analyze_request e rd st) = local_detection e rd st)"
proof -
  have a: "fst (analyze_threat e rd (spider_api st))
              = \<lparr>threat_score = Some 0, threat_types = [], reputation = ''unknown''\<rparr>
            \<and> cache (snd (analyze_threat e rd (spider_api st))) = cache (spider_api st)"
    if client_failure
    using that unfolding client_failure_def
    by (simp add: analyze_threat_failure [OF miss] neutral_score_def)
  have b: "fst (SentinelBot_analyze_request e rd st) = local_detection e rd st"
    if u: "unlisted rd st" and f: "client_failure \<or> 0.03 \<le> post_latency e"
  proof (cases "5 \<le> severity_level (local_detection e rd st)
      \<and> severity_level (local_detection e rd st) < 8")
    case False
    then have "8 \<le> severity_level (local_detection e rd st)
        \<or> severity_level (local_detection e rd st) < 5"
      by auto
    then show ?thesis
      by (simp add: analyze_request_unlisted [OF u] remote_stage_not_medium)
  next
    case True
    then have m: "5 \<le> severity_level (local_detection e rd st)"
      "severity_level (local_detection e rd st) < 8"
      by simp_all
    note d = medium_classification(1) [OF u m]
    show ?thesis
    proof (cases "post_latency e < 0.03")
      case False
      then have "0.03 \<le> post_latency e"
        by simp
      then have "remote_outcome e rd (spider_api st) = Inl AsyncioTimeoutError"
        by (rule remote_late [OF miss])
      then show ?thesis
        by (simp add: d)
    next
      case True
      with f have cf: "(\<exists>ex. post_result e = Inl ex)
         \<or> (\<exists>resp. post_result e = Inr resp \<and> (status resp \<noteq> 200 \<or> (\<exists>ex. json resp = Inl ex)))"
        by (simp add: client_failure_def)
      have "remote_outcome e rd (spider_api st) = Inr neutral_score"
        by (rule remote_client_failure [OF miss True cf])
      then show ?thesis
        by (simp add: d apply_neutral_score local_detection_spider_score)
    qed
  qed
  from a b show ?thesis
    by blast
qed

text \<open>Claim C8 at the scanner's request and a remote service that answers with status
  500.\<close>

theorem remote_failure_is_neutral_witness:
  "cache_lookup http500_env scanner_request (spider_api fresh_bot) = None
   \<and> post_result http500_env = Inr http500_response \<and> status http500_response \<noteq> 200
   \<and> unlisted scanner_request fresh_bot
   \<and> fst (analyze_threat http500_env scanner_request (spider_api fresh_bot))
       = \<lparr>threat_score = Some 0, threat_types = [], reputation = ''unknown''\<rparr>
   \<and> fst (SentinelBot_analyze_request http500_env scanner_request fresh_bot)
       = local_detection http500_env scanner_request fresh_bot"
proof -
  have h: "post_result http500_env = Inr http500_response \<and> status http500_response \<noteq> 200"
    by (simp add: http500_env_def http500_response_def)
  from remote_failure_is_neutral [OF fresh_cache_miss, of http500_env scanner_request] h
    scanner_unlisted
  have "fst (analyze_threat http500_env scanner_request (spider_api fresh_bot))
       = \<lparr>threat_score = Some 0, threat_types = [], reputation = ''unknown''\<rparr>
     \<and> fst (SentinelBot_analyze_request http500_env scanner_request fresh_bot)
       = local_detection http500_env scanner_request fresh_bot"
    by blast
  with h scanner_unlisted fresh_cache_miss [of http500_env scanner_request]
  show ?thesis by blast
qed

subsection \<open>Claim C9: the cache of remote results\<close>

text \<open>Claim C9 states that of two classifications with the same address, user agent
  and path, the second, within the TTL of a first whose remote call succeeded, is served
  from the cache and returns the same remote score. It fails when the second request
  differs elsewhere: with an apostrophe in a query parameter its local severity is 9,
  the remote stage is skipped, and its remote score is 0 where the first one's is 9.\<close>

theorem second_classification_counterexample:
  "after_first = snd (SentinelBot_analyze_request score9_env scanner_request fresh_bot)
   \<and> req_ip injection_request = req_ip scanner_request
   \<and> req_user_agent injection_request = req_user_agent scanner_request
   \<and> req_path injection_request = req_path scanner_request
   \<and> posts (spider_api after_first) = posts (spider_api fresh_bot) + 1
   \<and> spider_score (fst (SentinelBot_analyze_request score9_env scanner_request fresh_bot)) = 9
   \<and> t_cache_check later_env - t_cache_store score9_env < cache_ttl
   \<and> posts (spider_api (snd (SentinelBot_analyze_request later_env injection_request after_first)))
       = posts (spider_api after_first)
   \<and> spider_score (fst (SentinelBot_analyze_request later_env injection_request after_first)) = 0"
proof -
  have s: "8 \<le> severity_level (local_detection later_env injection_request after_first)
      \<or> severity_level (local_detection later_env injection_request after_first) < 5"
    using injection_severity_any [of later_env after_first] by simp
  have 1: "req_ip injection_request = req_ip scanner_request
      \<and> req_user_agent injection_request = req_user_agent scanner_request
      \<and> req_path injection_request = req_path scanner_request"
    by (simp add: injection_request_def)
  have 2: "posts (spider_api after_first) = posts (spider_api fresh_bot) + 1"
    by (simp add: after_first_facts(2) fresh_bot_def)
  have 3: "t_cache_check later_env - t_cache_store score9_env < cache_ttl"
    by (simp add: later_env_def score9_env_def cache_ttl_def)
  have 4: "spider_score (fst (SentinelBot_analyze_request later_env injection_request after_first))
      = 0"
    by (simp add: not_medium_client(2) [OF after_first_facts(3) s] local_detection_spider_score)
  have 5: "posts (spider_api (snd (SentinelBot_analyze_request later_env injection_request
      after_first))) = posts (spider_api after_first)"
    by (simp add: not_medium_client(1) [OF after_first_facts(3) s])
  from 1 2 3 4 5 after_first_facts(1) show ?thesis
    by (simp add: after_first_def)
qed

text \<open>Claim C9, amended. Take two classifications with the same address, user agent
  and path, and any number of classifications between them. Let the first one's remote
  call succeed, let the second one's cache lookup come less than 300 seconds after the
  first one's store, and let no classification in between look the cache up later than
  the second. Then the two classifications make exactly one network call in total, the
  first one's; and if the second classification also has a local severity from 5 to 7,
  it is served from the cache and returns the same remote score as the first.\<close>

theorem cache_idempotence:
  fixes e1 e2 rd1 rd2 st0 between
  defines "st1 \<equiv> snd (SentinelBot_analyze_request e1 rd1 st0)"
  defines "st1' \<equiv> classify_all between st1"
  defines "st2 \<equiv> snd (SentinelBot_analyze_request e2 rd2 st1')"
  assumes same: "req_ip rd2 = req_ip rd1" "req_user_agent rd2 = req_user_agent rd1"
      "req_path rd2 = req_path rd1" "md5_hexdigest e2 = md5_hexdigest e1"
    and u: "unlisted rd1 st0"
    and m: "5 \<le> severity_level (local_detection e1 rd1 st0)"
      "severity_level (local_detection e1 rd1 st0) < 8"
    and miss: "cache_lookup e1 rd1 (spider_api st0) = None"
    and ok: "post_latency e1 < 0.03" "post_result e1 = Inr resp" "status resp = 200"
      "json resp = Inr r"
    and ttl: "t_cache_check e2 - t_cache_store e1 < cache_ttl"
    and earlier: "lookups_by (t_cache_check e2) between"
  shows "posts (spider_api st1) = posts (spider_api st0) + 1
       \<and> posts (spider_api st2) = posts (spider_api st1')
       \<and> (5 \<le> severity_level (local_detection e2 rd2 st1')
            \<and> severity_level (local_detection e2 rd2 st1') < 8 \<longrightarrow>
          cache_lookup e2 rd2 (spider_api st1') = Some r
          \<and> spider_score (fst (SentinelBot_analyze_request e2 rd2 st1'))
              = spider_score (fst (SentinelBot_analyze_request e1 rd1 st0)))"
proof -
  have api1: "spider_api st1 =
      (spider_api st0)\<lparr>posts := posts (spider_api st0) + 1,
         cache := (cache (spider_api st0))(cache_key e1 rd1 \<mapsto> (r, t_cache_store e1))\<rparr>"
    unfolding st1_def
    by (simp only: medium_classification(2) [OF u m] remote_success(2) [OF miss ok])
  have d1: "fst (SentinelBot_analyze_request e1 rd1 st0)
      = apply_spider_result r (local_detection e1 rd1 st0)"
    by (simp add: medium_classification(1) [OF u m] remote_success(1) [OF miss ok])
  have key: "cache_key e2 rd2 = cache_key e1 rd1"
    by (simp add: cache_key_def same)
  have "cache (spider_api st1) (cache_key e1 rd1) = Some (r, t_cache_store e1)"
    by (simp add: api1)
  then have "cache (spider_api st1') (cache_key e2 rd2) = Some (r, t_cache_store e1)"
    unfolding st1'_def key by (rule classify_all_keeps_entry [OF _ earlier ttl])
  then have hit: "cache_lookup e2 rd2 (spider_api st1') = Some r"
    using ttl by (rule cache_lookup_entry)
  have u2: "unlisted rd2 st1'"
    using u by (simp add: unlisted_def st1'_def st1_def classify_all_lists analyze_request_lists same)
  have p1: "posts (spider_api st1) = posts (spider_api st0) + 1"
    by (simp add: api1)
  show ?thesis
  proof (cases "5 \<le> severity_level (local_detection e2 rd2 st1')
      \<and> severity_level (local_detection e2 rd2 st1') < 8")
    case True
    then have m2: "5 \<le> severity_level (local_detection e2 rd2 st1')"
      "severity_level (local_detection e2 rd2 st1') < 8"
      by simp_all
    have "spider_api st2 = spider_api st1'"
      unfolding st2_def
      by (simp only: medium_classification(2) [OF u2 m2] remote_hit(2) [OF hit])
    moreover have "fst (SentinelBot_analyze_request e2 rd2 st1')
        = apply_spider_result r (local_detection e2 rd2 st1')"
      by (simp add: medium_classification(1) [OF u2 m2] remote_hit(1) [OF hit])
    ultimately show ?thesis
      using hit by (simp add: p1 d1 apply_spider_result_fields)
  next
    case False
    then have "8 \<le> severity_level (local_detection e2 rd2 st1')
        \<or> severity_level (local_detection e2 rd2 st1') < 5"
      by auto
    then have "spider_api st2 = spider_api st1'"
      unfolding st2_def by (rule not_medium_client(1) [OF u2])
    with False show ?thesis
      by (auto simp add: p1)
  qed
qed

text \<open>The amended claim C9 at the scanner's request, classified twice ten seconds
  apart with the browser's request in between, the network being unreachable the second
  time.\<close>

theorem cache_idempotence_witness:
  "unlisted scanner_request fresh_bot
   \<and> 5 \<le> severity_level (local_detection score9_env scanner_request fresh_bot)
   \<and> severity_level (local_detection score9_env scanner_request fresh_bot) < 8
   \<and> cache_lookup score9_env scanner_request (spider_api fresh_bot) = None
   \<and> post_latency score9_env < 0.03 \<and> post_result score9_env = Inr score9_response
   \<and> status score9_response = 200 \<and> json score9_response = Inr score9_result
   \<and> md5_hexdigest later_env = md5_hexdigest score9_env
   \<and> t_cache_check later_env - t_cache_store score9_env < cache_ttl
   \<and> lookups_by (t_cache_check later_env) [(score9_env, benign_request)]
   \<and> 5 \<le> severity_level (local_detection later_env scanner_request after_benign)
   \<and> severity_level (local_detection later_env scanner_request after_benign) < 8
   \<and> posts (spider_api after_first) = posts (spider_api fresh_bot) + 1
   \<and> posts (spider_api (snd (SentinelBot_analyze_request later_env scanner_request after_benign)))
       = posts (spider_api after_benign)
   \<and> cache_lookup later_env scanner_request (spider_api after_benign) = Some score9_result
   \<and> spider_score (fst (SentinelBot_analyze_request later_env scanner_request after_benign))
       = spider_score (fst (SentinelBot_analyze_request score9_env scanner_request fresh_bot))"
proof -
  have m: "5 \<le> severity_level (local_detection score9_env scanner_request fresh_bot)"
    "severity_level (local_detection score9_env scanner_request fresh_bot) < 8"
    by (simp_all add: scanner_severity)
  have ok: "post_latency score9_env < 0.03" "post_result score9_env = Inr score9_response"
    "status score9_response = 200" "json score9_response = Inr score9_result"
    by (simp_all add: score9_env_def score9_response_def)
  have h: "md5_hexdigest later_env = md5_hexdigest score9_env"
    by (simp add: later_env_def score9_env_def)
  have ttl: "t_cache_check later_env - t_cache_store score9_env < cache_ttl"
    by (simp add: later_env_def score9_env_def cache_ttl_def)
  have m2: "5 \<le> severity_level (local_detection later_env scanner_request after_benign)"
    "severity_level (local_detection later_env scanner_request after_benign) < 8"
    by (simp_all add: scanner_severity_after_benign)
  note t = cache_idempotence [OF refl refl refl h scanner_unlisted m fresh_cache_miss ok ttl
      benign_lookup_earlier, folded after_first_def, folded after_benign_def]
  from t m2 scanner_unlisted m fresh_cache_miss [of score9_env scanner_request] ok h ttl
    benign_lookup_earlier
  show ?thesis
    by simp
qed

subsection \<open>Claim C10: an address on both lists\<close>

text \<open>Claim C10. A request whose address is both in the allow set and in the block set
  gets the allow-listed result: severity 0, action \<open>allow\<close>, confidence 1.0. The allow
  set is tested first.\<close>

theorem allow_list_precedence:
  assumes "get_default [] (req_ip rd) \<in> whitelist_ips st"
    and "get_default [] (req_ip rd) \<in> blocked_ips st"
  shows "fst (SentinelBot_analyze_request e rd st) = create_safe_detection e rd (t_start e)
       \<and> severity_level (fst (SentinelBot_analyze_request e rd st)) = 0
       \<and> recommended_action (fst (SentinelBot_analyze_request e rd st)) = ''allow''
       \<and> confidence (fst (SentinelBot_analyze_request e rd st)) = 1.0"
  using assms(1) by (simp add: analyze_request_whitelisted create_safe_detection_def)

text \<open>Claim C10 at the address \<^verbatim>\<open>10.0.0.1\<close>, put on both lists.\<close>

theorem allow_list_precedence_witness:
  "get_default [] (req_ip scanner_request) \<in> whitelist_ips both_lists_bot
   \<and> get_default [] (req_ip scanner_request) \<in> blocked_ips both_lists_bot
   \<and> severity_level (fst (SentinelBot_analyze_request score9_env scanner_request both_lists_bot)) = 0
   \<and> recommended_action (fst (SentinelBot_analyze_request score9_env scanner_request both_lists_bot))
       = ''allow''"
proof -
  have w: "get_default [] (req_ip scanner_request) \<in> whitelist_ips both_lists_bot"
    and b: "get_default [] (req_ip scanner_request) \<in> blocked_ips both_lists_bot"
    by (simp_all add: scanner_request_def get_default_def both_lists_bot_def fresh_bot_def)
  from allow_list_precedence [OF w b, of score9_env] w b show ?thesis by blast
qed

end
